theory Spec2Isabelle
  imports Complex_Main
begin

section \<open>Python string primitives used by the services\<close>

text \<open>
  A Python \<^verbatim>\<open>str\<close> is modelled as a \<^typ>\<open>string\<close> whose characters are the code points
  below 256. The primitives below follow Python's \<^verbatim>\<open>str.split()\<close>, \<^verbatim>\<open>str.strip()\<close>,
  \<^verbatim>\<open>str.lower()\<close>, \<^verbatim>\<open>' '.join\<close> and \<^verbatim>\<open>in\<close> on that range: whitespace is what
  \<^verbatim>\<open>str.isspace\<close> accepts there (codes 9 to 13, 28 to 32, 133 and 160), and lowering
  adds 32 to the capital letters, which are \<^verbatim>\<open>A..Z\<close> (65 to 90) and the accented capitals
  192 to 222 without the multiplication sign 215.
\<close>

definition is_space :: "char \<Rightarrow> bool" where
  "is_space c \<longleftrightarrow> c \<in> set [CHR '' '', CHR 0x09, CHR 0x0A, CHR 0x0B, CHR 0x0C, CHR 0x0D,
                           CHR 0x1C, CHR 0x1D, CHR 0x1E, CHR 0x1F, CHR 0x85, CHR 0xA0]"

fun split_acc :: "string \<Rightarrow> string \<Rightarrow> string list" where
  "split_acc cur [] = (if cur = [] then [] else [cur])"
| "split_acc cur (c # cs) =
     (if is_space c then (if cur = [] then split_acc [] cs else cur # split_acc [] cs)
      else split_acc (cur @ [c]) cs)"

definition py_split :: "string \<Rightarrow> string list" where
  "py_split s = split_acc [] s"

definition py_strip :: "string \<Rightarrow> string" where
  "py_strip s = rev (dropWhile is_space (rev (dropWhile is_space s)))"

definition lower_char :: "char \<Rightarrow> char" where
  "lower_char c =
     (let n = (of_char c :: nat)
      in if (65 \<le> n \<and> n \<le> 90) \<or> (192 \<le> n \<and> n \<le> 222 \<and> n \<noteq> 215) then char_of (n + 32) else c)"

definition py_lower :: "string \<Rightarrow> string" where
  "py_lower s = map lower_char s"

fun py_join :: "string \<Rightarrow> string list \<Rightarrow> string" where
  "py_join sep [] = []"
| "py_join sep [x] = x"
| "py_join sep (x # y # ys) = x @ sep @ py_join sep (y # ys)"

fun py_in :: "string \<Rightarrow> string \<Rightarrow> bool" where
  "py_in sub [] = (sub = [])"
| "py_in sub (c # cs) = (take (length sub) (c # cs) = sub \<or> py_in sub cs)"

section \<open>helpers.py: Jaccard similarity\<close>

text \<open>
  \<^verbatim>\<open>calculate_similarity\<close> divides two set sizes and the caller compares the quotient with
  \<^verbatim>\<open>0.8\<close>. The quotient is modelled as an exact real number; for token sets of any
  realistic size the comparison of the rounded double quotient with the double \<^verbatim>\<open>0.8\<close>
  gives the same answer, because two distinct fractions with small denominators are
  never rounded to the same double.
\<close>

definition calculate_similarity :: "string \<Rightarrow> string \<Rightarrow> real" where
  "calculate_similarity text1 text2 =
     (if text1 = [] \<or> text2 = [] then 0
      else
        let words1 = set (py_split (py_lower text1));
            words2 = set (py_split (py_lower text2));
            intersection = words1 \<inter> words2;
            union = words1 \<union> words2
        in if union = {} then 0 else real (card intersection) / real (card union))"

section \<open>Events and the outside world\<close>

text \<open>
  Every call that leaves the process is an oracle of the environment: it reads and
  updates an opaque world state \<open>'w\<close>, so that two calls with the same arguments may
  answer differently. Each function of the services takes the program state and returns
  it updated; the state carries the world and the log of the effects performed so far,
  oldest first.
\<close>

datatype event =
    ArxivGet string nat
  | RateLimitWait string
  | Sleep real
  | HttpGet string bool
  | GrobidPost string
  | ModelCall string

record PaperSearchResult =
  title :: string
  abstract :: "string option"
  doi :: "string option"
  url :: "string option"
  pdf_url :: "string option"
  publication_date :: "string option"
  authors :: "string list"
  venue :: "string option"

text \<open>
  The answer of the arXiv endpoint: the GET raises, or it returns a status code and a
  body. The body is kept as the entries the XML parser of \<^verbatim>\<open>_search_arxiv\<close> builds from
  it, \<open>None\<close> when the XML does not parse.
\<close>

datatype arxiv_outcome =
    ArxivRaise string
  | ArxivResponse nat "PaperSearchResult list option"

record 'w search_env =
  arxiv_get :: "string \<Rightarrow> nat \<Rightarrow> 'w \<Rightarrow> arxiv_outcome \<times> 'w"

record 'w state =
  world :: 'w
  trace :: "event list"

definition emit :: "event \<Rightarrow> 'w state \<Rightarrow> 'w state" where
  "emit e s = s\<lparr>trace := trace s @ [e]\<rparr>"

section \<open>search\_service.py\<close>

text \<open>
  \<^verbatim>\<open>_search_arxiv\<close>: waits on the arXiv rate limiter, cleans the query with
  \<^verbatim>\<open>strip().lower()\<close>, issues the GET, and returns the parsed entries on status 200.
  Every other status, an XML parse error and every exception give the empty list, so the
  surrounding \<^verbatim>\<open>retry_async\<close> decorator never sees an exception and returns the first
  attempt's value.
\<close>

definition search_arxiv ::
  "'w search_env \<Rightarrow> string \<Rightarrow> nat \<Rightarrow> 'w state
     \<Rightarrow> PaperSearchResult list \<times> 'w state" where
  "search_arxiv env query limit s =
     (let s1 = emit (RateLimitWait ''arxiv'') s;
          clean_query = py_lower (py_strip query);
          (out, w) = arxiv_get env clean_query limit (world s1);
          s2 = emit (ArxivGet clean_query limit) (s1\<lparr>world := w\<rparr>)
      in case out of
           ArxivRaise e \<Rightarrow> ([], s2)
         | ArxivResponse status body \<Rightarrow>
             (if status = 200 then (case body of Some results \<Rightarrow> (results, s2) | None \<Rightarrow> ([], s2))
              else ([], s2)))"

text \<open>\<^verbatim>\<open>_remove_duplicates\<close>: the inner loop with its \<^verbatim>\<open>break\<close>, then the outer loop.\<close>

fun is_duplicate :: "PaperSearchResult \<Rightarrow> PaperSearchResult list \<Rightarrow> bool" where
  "is_duplicate result [] = False"
| "is_duplicate result (unique_result # rest) =
     (if calculate_similarity (title result) (title unique_result) > 0.8 then True
      else is_duplicate result rest)"

fun dedup_loop :: "PaperSearchResult list \<Rightarrow> PaperSearchResult list \<Rightarrow> PaperSearchResult list" where
  "dedup_loop unique_results [] = unique_results"
| "dedup_loop unique_results (result # rest) =
     dedup_loop (if is_duplicate result unique_results then unique_results
                 else unique_results @ [result]) rest"

definition remove_duplicates :: "PaperSearchResult list \<Rightarrow> PaperSearchResult list" where
  "remove_duplicates results =
     (case results of [] \<Rightarrow> [] | first # rest \<Rightarrow> dedup_loop [first] rest)"

text \<open>
  \<^verbatim>\<open>search_papers\<close>. \<^verbatim>\<open>max_results\<close> is a natural number: the only caller passes
  \<^verbatim>\<open>int(settings.GAP_VALIDATION_PAPERS)\<close>, which is 5.
\<close>

definition search_papers ::
  "'w search_env \<Rightarrow> string \<Rightarrow> nat \<Rightarrow> 'w state
     \<Rightarrow> PaperSearchResult list \<times> 'w state" where
  "search_papers env query max_results s =
     (let (results, s1) = search_arxiv env query max_results s;
          all_results = results;
          (all_results, s3) =
            (if length all_results = 0 then
               let words = py_split query;
                   (all_results, s2) =
                     (if length words > 2 then
                        let fallback_query = py_join '' '' (take 2 words);
                            (fallback_results, s') = search_arxiv env fallback_query max_results s1
                        in (all_results @ fallback_results, s')
                      else (all_results, s1))
               in if length all_results = 0 \<and> length words > 1 then
                    let single_word_query = hd words;
                        (single_word_results, s') = search_arxiv env single_word_query max_results s2
                    in (all_results @ single_word_results, s')
                  else (all_results, s2)
             else (all_results, s1));
          unique_results = remove_duplicates all_results
      in (take max_results unique_results, s3))"

section \<open>grobid\_client.py\<close>

function show_nat :: "nat \<Rightarrow> string" where
  "show_nat n =
     (if n < 10 then [char_of (48 + n)] else show_nat (n div 10) @ [char_of (48 + n mod 10)])"
  by pat_completeness auto
termination
  by (relation "measure id") auto

record ExtractedContent =
  ec_title :: string
  ec_abstract :: "string option"
  ec_sections :: "(string \<times> string) list list"
  ec_conclusion :: "string option"
  ec_methods :: "string option"
  ec_results :: "string option"
  extraction_success :: bool
  ec_error :: "string option"

text \<open>The value every failure path builds: \<^verbatim>\<open>ExtractedContent(title="", extraction_success=False, error=...)\<close>.\<close>

definition failed_extraction :: "string \<Rightarrow> ExtractedContent" where
  "failed_extraction msg = \<lparr>ec_title = [], ec_abstract = None, ec_sections = [],
     ec_conclusion = None, ec_methods = None, ec_results = None,
     extraction_success = False, ec_error = Some msg\<rparr>"

datatype post_outcome = PostRaise string | PostResponse nat string

datatype get_outcome = GetRaise string | GetResponse nat string

text \<open>
  The environment of the client: the POST to \<^verbatim>\<open>/api/processFulltextDocument\<close> (its argument
  is the PDF payload), the GET of a URL (the flag says whether the browser-like
  \<^verbatim>\<open>User-Agent\<close> header is sent), and \<^verbatim>\<open>_parse_tei_xml\<close>, which catches every exception
  itself and so always returns a value.
\<close>

record 'w grobid_env =
  grobid_post :: "string \<Rightarrow> 'w \<Rightarrow> post_outcome \<times> 'w"
  http_get :: "string \<Rightarrow> bool \<Rightarrow> 'w \<Rightarrow> get_outcome \<times> 'w"
  parse_tei_xml :: "string \<Rightarrow> ExtractedContent"

text \<open>
  The loop \<^verbatim>\<open>for attempt in range(max_attempts)\<close> of \<^verbatim>\<open>_extract_with_retry\<close>, as a recursion
  over the attempts still to make. On 503 and on an exception the code sleeps only when
  \<^verbatim>\<open>attempt < max_attempts - 1\<close>; on the last attempt it falls out of the loop.
\<close>

fun extract_loop ::
  "'w grobid_env \<Rightarrow> string \<Rightarrow> nat \<Rightarrow> nat list \<Rightarrow> 'w state \<Rightarrow> ExtractedContent \<times> 'w state" where
  "extract_loop env pdf_bytes max_attempts [] s =
     (failed_extraction ''GROBID extraction failed after all retry attempts'', s)"
| "extract_loop env pdf_bytes max_attempts (attempt # rest) s =
     (let (out, w) = grobid_post env pdf_bytes (world s);
          s1 = emit (GrobidPost pdf_bytes) (s\<lparr>world := w\<rparr>)
      in case out of
           PostResponse status_code text \<Rightarrow>
             (if status_code = 200 then (parse_tei_xml env text, s1)
              else if status_code = 503 then
                (let wait_time = (2 ^ attempt) * 5 in
                 if int attempt < int max_attempts - 1
                 then extract_loop env pdf_bytes max_attempts rest (emit (Sleep (real wait_time)) s1)
                 else extract_loop env pdf_bytes max_attempts rest s1)
              else if status_code = 500 then
                (failed_extraction ''GROBID internal server error - PDF may be corrupted or invalid'', s1)
              else (failed_extraction (''GROBID error: '' @ show_nat status_code), s1))
         | PostRaise e \<Rightarrow>
             (if int attempt < int max_attempts - 1
              then (let wait_time = (2 ^ attempt) * 2
                    in extract_loop env pdf_bytes max_attempts rest (emit (Sleep (real wait_time)) s1))
              else extract_loop env pdf_bytes max_attempts rest s1))"

definition extract_with_retry ::
  "'w grobid_env \<Rightarrow> string \<Rightarrow> nat \<Rightarrow> 'w state \<Rightarrow> ExtractedContent \<times> 'w state" where
  "extract_with_retry env pdf_bytes max_attempts s =
     (if length pdf_bytes < 1000
      then (failed_extraction (''PDF too small ('' @ show_nat (length pdf_bytes)
                                 @ '' bytes) - likely invalid or error page''), s)
      else extract_loop env pdf_bytes max_attempts [0 ..< max_attempts] s)"

text \<open>\<^verbatim>\<open>extract_from_bytes\<close> takes the semaphore and calls with the default of three attempts.\<close>

definition extract_from_bytes ::
  "'w grobid_env \<Rightarrow> string \<Rightarrow> 'w state \<Rightarrow> ExtractedContent \<times> 'w state" where
  "extract_from_bytes env pdf_bytes s = extract_with_retry env pdf_bytes 3 s"

text \<open>
  The three download strategies. Each returns \<open>Inl\<close> when the GET raises, \<open>Inr None\<close> for
  Python's \<^verbatim>\<open>None\<close> and \<open>Inr (Some content)\<close> otherwise.
\<close>

definition try_direct_download ::
  "'w grobid_env \<Rightarrow> string \<Rightarrow> 'w state \<Rightarrow> (string + string option) \<times> 'w state" where
  "try_direct_download env u s =
     (let (out, w) = http_get env u False (world s);
          s1 = emit (HttpGet u False) (s\<lparr>world := w\<rparr>)
      in case out of
           GetRaise e \<Rightarrow> (Inl e, s1)
         | GetResponse status_code content \<Rightarrow>
             (if status_code = 200 then
                (if length content < 1000 then (Inr None, s1) else (Inr (Some content), s1))
              else if status_code = 403 then (Inr None, s1)
              else (Inr None, s1)))"

definition try_with_user_agent ::
  "'w grobid_env \<Rightarrow> string \<Rightarrow> 'w state \<Rightarrow> (string + string option) \<times> 'w state" where
  "try_with_user_agent env u s =
     (let (out, w) = http_get env u True (world s);
          s1 = emit (HttpGet u True) (s\<lparr>world := w\<rparr>)
      in case out of
           GetRaise e \<Rightarrow> (Inl e, s1)
         | GetResponse status_code content \<Rightarrow>
             (if status_code = 200 then
                (if length content < 1000 then (Inr None, s1) else (Inr (Some content), s1))
              else (Inr None, s1)))"

text \<open>
  \<^verbatim>\<open>re.search(r'arxiv\.org/abs/(\d+\.\d+)', url)\<close>, returning group 1 of the leftmost match:
  both \<^verbatim>\<open>\d+\<close> are greedy, and giving back digits can never make the next character a dot.
\<close>

definition is_digit :: "char \<Rightarrow> bool" where
  "is_digit c \<longleftrightarrow> (let n = (of_char c :: nat) in 48 \<le> n \<and> n \<le> 57)"

definition arxiv_id_at :: "string \<Rightarrow> string option" where
  "arxiv_id_at t =
     (if take 14 t = ''arxiv.org/abs/'' then
        (let rest = drop 14 t;
             d1 = takeWhile is_digit rest;
             rest1 = dropWhile is_digit rest;
             d2 = takeWhile is_digit (drop 1 rest1)
         in if d1 \<noteq> [] \<and> take 1 rest1 = ''.'' \<and> d2 \<noteq> [] then Some (d1 @ ''.'' @ d2) else None)
      else None)"

fun arxiv_match :: "string \<Rightarrow> string option" where
  "arxiv_match [] = None"
| "arxiv_match (c # cs) =
     (case arxiv_id_at (c # cs) of Some i \<Rightarrow> Some i | None \<Rightarrow> arxiv_match cs)"

text \<open>The loop over the alternative URLs: the first status 200 wins, with no size check.\<close>

fun try_urls :: "'w grobid_env \<Rightarrow> string list \<Rightarrow> 'w state \<Rightarrow> string option \<times> 'w state" where
  "try_urls env [] s = (None, s)"
| "try_urls env (alt_url # rest) s =
     (let (out, w) = http_get env alt_url False (world s);
          s1 = emit (HttpGet alt_url False) (s\<lparr>world := w\<rparr>)
      in case out of
           GetRaise e \<Rightarrow> try_urls env rest s1
         | GetResponse status_code content \<Rightarrow>
             (if status_code = 200 then (Some content, s1) else try_urls env rest s1))"

text \<open>
  \<^verbatim>\<open>_try_alternative_urls\<close>. The function imports \<^verbatim>\<open>re\<close> inside its arXiv branch, which makes
  \<^verbatim>\<open>re\<close> a local name of the whole function; the PMC branch reads it unassigned and raises
  \<^verbatim>\<open>UnboundLocalError\<close>.
\<close>

definition try_alternative_urls ::
  "'w grobid_env \<Rightarrow> string \<Rightarrow> 'w state \<Rightarrow> (string + string option) \<times> 'w state" where
  "try_alternative_urls env u s =
     (if py_in ''arxiv.org'' u then
        (let alternative_urls =
               (case arxiv_match u of
                  Some arxiv_id \<Rightarrow> [''https://arxiv.org/pdf/'' @ arxiv_id @ ''.pdf'',
                                    ''https://arxiv.org/e-print/'' @ arxiv_id]
                | None \<Rightarrow> []);
             (r, s1) = try_urls env alternative_urls s
         in (Inr r, s1))
      else if py_in ''ncbi.nlm.nih.gov'' u then
        (Inl ''cannot access local variable 're' where it is not associated with a value'', s)
      else (let (r, s1) = try_urls env [] s in (Inr r, s1)))"

text \<open>
  \<^verbatim>\<open>_download_pdf\<close>: the strategies in order; a strategy that raises or returns a falsy value
  (\<^verbatim>\<open>None\<close> or empty bytes) hands over to the next one.
\<close>

fun download_loop ::
  "('w state \<Rightarrow> (string + string option) \<times> 'w state) list \<Rightarrow> 'w state
     \<Rightarrow> string option \<times> 'w state" where
  "download_loop [] s = (None, s)"
| "download_loop (attempt_func # rest) s =
     (case attempt_func s of
        (Inl e, s1) \<Rightarrow> download_loop rest s1
      | (Inr None, s1) \<Rightarrow> download_loop rest s1
      | (Inr (Some result), s1) \<Rightarrow>
          (if result \<noteq> [] then (Some result, s1) else download_loop rest s1))"

definition download_pdf ::
  "'w grobid_env \<Rightarrow> string \<Rightarrow> 'w state \<Rightarrow> string option \<times> 'w state" where
  "download_pdf env u s =
     download_loop [try_direct_download env u, try_with_user_agent env u,
                    try_alternative_urls env u] s"

text \<open>
  \<^verbatim>\<open>extract_from_url\<close>. Neither \<^verbatim>\<open>_download_pdf\<close> nor \<^verbatim>\<open>extract_from_bytes\<close> raises, so the
  \<^verbatim>\<open>except\<close> branch and the \<^verbatim>\<open>retry_async\<close> decorator around it have nothing to catch.
\<close>

definition extract_from_url ::
  "'w grobid_env \<Rightarrow> string \<Rightarrow> 'w state \<Rightarrow> ExtractedContent \<times> 'w state" where
  "extract_from_url env u s =
     (case download_pdf env u s of
        (None, s1) \<Rightarrow> (failed_extraction ''Failed to download PDF'', s1)
      | (Some pdf_content, s1) \<Rightarrow>
          (if pdf_content = [] then (failed_extraction ''Failed to download PDF'', s1)
           else extract_from_bytes env pdf_content s1))"

definition create_extraction_from_metadata :: "PaperSearchResult \<Rightarrow> ExtractedContent" where
  "create_extraction_from_metadata paper =
     \<lparr>ec_title = title paper, ec_abstract = abstract paper,
      ec_sections =
        (case abstract paper of
           None \<Rightarrow> []
         | Some a \<Rightarrow> (if a = [] then []
                      else [[(''heading'', ''Abstract''), (''content'', a), (''level'', ''1'')]])),
      ec_conclusion = None, ec_methods = None, ec_results = None,
      extraction_success = True, ec_error = None\<rparr>"

text \<open>
  \<^verbatim>\<open>extract_batch\<close>: batches of three papers, a pause of three seconds between batches. The
  tasks of a batch run concurrently under a semaphore in the source; they are run here in
  the order of the papers, which is the order \<^verbatim>\<open>asyncio.gather\<close> returns their results in.
\<close>

fun extract_tasks ::
  "'w grobid_env \<Rightarrow> PaperSearchResult list \<Rightarrow> 'w state \<Rightarrow> ExtractedContent list \<times> 'w state" where
  "extract_tasks env [] s = ([], s)"
| "extract_tasks env (paper # rest) s =
     (let (r, s1) =
            (case pdf_url paper of
               None \<Rightarrow> (create_extraction_from_metadata paper, s)
             | Some u \<Rightarrow> (if u = [] then (create_extraction_from_metadata paper, s)
                          else extract_from_url env u s));
          (rs, s2) = extract_tasks env rest s1
      in (r # rs, s2))"

function extract_batch_from ::
  "'w grobid_env \<Rightarrow> PaperSearchResult list \<Rightarrow> nat \<Rightarrow> 'w state
     \<Rightarrow> ExtractedContent list \<times> 'w state" where
  "extract_batch_from env papers batch_start s =
     (if batch_start < length papers then
        (let batch_end = min (batch_start + 3) (length papers);
             batch_papers = take (batch_end - batch_start) (drop batch_start papers);
             (results, s1) = extract_tasks env batch_papers s;
             s2 = (if batch_end < length papers then emit (Sleep 3) s1 else s1);
             (rest, s3) = extract_batch_from env papers (batch_start + 3) s2
         in (results @ rest, s3))
      else ([], s))"
  by pat_completeness auto
termination
  by (relation "measure (\<lambda>(env, papers, batch_start, s). length papers - batch_start)") auto

definition extract_batch ::
  "'w grobid_env \<Rightarrow> PaperSearchResult list \<Rightarrow> 'w state \<Rightarrow> ExtractedContent list \<times> 'w state" where
  "extract_batch env papers s = extract_batch_from env papers 0 s"

section \<open>gemini\_service.py\<close>

record InitialGap =
  gap_name :: string
  gap_description :: string
  gap_category :: string
  gap_reasoning :: string
  gap_evidence :: string

record ValidationResult =
  is_valid :: bool
  confidence :: real
  reasoning :: string
  should_modify :: bool
  modification_suggestion :: "string option"
  supporting_papers :: "(string \<times> string) list list"
  conflicting_papers :: "(string \<times> string) list list"

text \<open>JSON values as \<^verbatim>\<open>json.loads\<close> returns them; a Python \<^verbatim>\<open>dict\<close> is an association list.\<close>

datatype jval =
    JNull
  | JBool bool
  | JNum real
  | JStr string
  | JArr "jval list"
  | JObj "(string \<times> jval) list"

definition dict_get :: "(string \<times> jval) list \<Rightarrow> string \<Rightarrow> jval" where
  "dict_get d k = (case map_of d k of None \<Rightarrow> JNull | Some v \<Rightarrow> v)"

definition dict_get_default :: "(string \<times> jval) list \<Rightarrow> string \<Rightarrow> jval \<Rightarrow> jval" where
  "dict_get_default d k dflt = (case map_of d k of None \<Rightarrow> dflt | Some v \<Rightarrow> v)"

record PaperData =
  pd_title :: "string option"
  abstract_text :: "string option"
  pd_doi :: "string option"
  pd_publication_date :: "string option"

record SectionData =
  section_title :: "string option"
  section_type :: "string option"
  paragraphs :: "string list"

record ExtractedData =
  sections :: "SectionData list"
  figures :: "(string option \<times> string option) list"
  tables :: "(string option \<times> string option) list"
  conclusion :: "string option"




text \<open>
  The environment of the service. Each \<open>model_*\<close> oracle stands for the part of one
  operation's \<^verbatim>\<open>try\<close> block that follows the rate limiter: building the prompt, the call
  \<^verbatim>\<open>model.generate_content\<close>, and reading the reply with \<^verbatim>\<open>parse_json_safely\<close> and the
  pydantic constructor. \<open>Inl msg\<close> is an exception whose \<^verbatim>\<open>str\<close> is \<open>msg\<close>, \<open>Inr\<close> the
  value obtained. \<open>clock\<close> is \<^verbatim>\<open>time.time()\<close> and \<open>random_uniform\<close> is
  \<^verbatim>\<open>random.uniform(0, 1)\<close>.
\<close>

record 'w gemini_env =
  clock :: "'w \<Rightarrow> real \<times> 'w"
  random_uniform :: "'w \<Rightarrow> real \<times> 'w"
  model_initial_gaps :: "PaperData \<Rightarrow> ExtractedData \<Rightarrow> 'w \<Rightarrow> (string + InitialGap list) \<times> 'w"
  model_search_query :: "InitialGap \<Rightarrow> 'w \<Rightarrow> (string + string) \<times> 'w"
  model_validate :: "InitialGap \<Rightarrow> ExtractedContent list \<Rightarrow> 'w \<Rightarrow> (string + ValidationResult) \<times> 'w"
  model_expand :: "InitialGap \<Rightarrow> ValidationResult \<Rightarrow> 'w \<Rightarrow> (string + jval) \<times> 'w"





definition is_rate_limit_error :: "string \<Rightarrow> bool" where
  "is_rate_limit_error error_str \<longleftrightarrow> py_in ''429'' error_str \<or> py_in ''quota'' (py_lower error_str)"





text \<open>
  The decorator \<^verbatim>\<open>retry_async(max_attempts, delay)\<close> of helpers.py around a function
  \<open>func\<close>: the loop over the attempts, keeping the last exception.
\<close>

fun retry_loop ::
  "nat \<Rightarrow> real \<Rightarrow> ('w state \<Rightarrow> (string + 'a) \<times> 'w state) \<Rightarrow> nat list \<Rightarrow> string \<Rightarrow> 'w state
     \<Rightarrow> (string + 'a) \<times> 'w state" where
  "retry_loop max_attempts delay func [] last_exception s = (Inl last_exception, s)"
| "retry_loop max_attempts delay func (attempt # rest) last_exception s =
     (case func s of
        (Inr v, s1) \<Rightarrow> (Inr v, s1)
      | (Inl e, s1) \<Rightarrow>
          (if int attempt < int max_attempts - 1
           then retry_loop max_attempts delay func rest e (emit (Sleep delay) s1)
           else retry_loop max_attempts delay func rest e s1))"

definition retry_async ::
  "nat \<Rightarrow> real \<Rightarrow> ('w state \<Rightarrow> (string + 'a) \<times> 'w state) \<Rightarrow> 'w state \<Rightarrow> (string + 'a) \<times> 'w state" where
  "retry_async max_attempts delay func s =
     retry_loop max_attempts delay func [0 ..< max_attempts]
       ''exceptions must derive from BaseException'' s"

definition rate_limited_validation :: ValidationResult where
  "rate_limited_validation = \<lparr>is_valid = True, confidence = 0.3,
     reasoning = ''Rate limited - assuming valid with low confidence'', should_modify = False,
     modification_suggestion = None, supporting_papers = [], conflicting_papers = []\<rparr>"

definition error_validation :: ValidationResult where
  "error_validation = \<lparr>is_valid = True, confidence = 0.3,
     reasoning = ''Could not validate due to error'', should_modify = False,
     modification_suggestion = None, supporting_papers = [], conflicting_papers = []\<rparr>"

text \<open>The body of \<^verbatim>\<open>validate_gap\<close>, and the decorated function.\<close>

definition validate_gap_body ::
  "'w gemini_env \<Rightarrow> InitialGap \<Rightarrow> ExtractedContent list \<Rightarrow> 'w state
     \<Rightarrow> (string + ValidationResult) \<times> 'w state" where
  "validate_gap_body env gap related_papers s =
     (let s1 = emit (RateLimitWait ''gemini'') s;
          (out, w) = model_validate env gap related_papers (world s1);
          s2 = emit (ModelCall ''validate_gap'') (s1\<lparr>world := w\<rparr>)
      in case out of
           Inr validation \<Rightarrow> (Inr validation, s2)
         | Inl error_str \<Rightarrow>
             (if is_rate_limit_error error_str
              then (Inr rate_limited_validation, emit (Sleep 60) s2)
              else (Inr error_validation, s2)))"

definition validate_gap ::
  "'w gemini_env \<Rightarrow> InitialGap \<Rightarrow> ExtractedContent list \<Rightarrow> 'w state
     \<Rightarrow> (string + ValidationResult) \<times> 'w state" where
  "validate_gap env gap related_papers s =
     retry_async 3 2 (validate_gap_body env gap related_papers) s"





section \<open>gap\_schemas.py and gap\_models.py: requests, responses, the analysis row\<close>

record GapAnalysisRequest =
  paperId :: string
  paperExtractionId :: string
  correlationId :: string
  requestId :: string
  config :: "(string \<times> jval) list option"

datatype GapStatus = PENDING | PROCESSING | COMPLETED | FAILED

text \<open>A row of \<^verbatim>\<open>gap_analyses\<close>, which is also the ORM object the service mutates.\<close>

record GapAnalysis =
  analysis_id :: string
  paper_id :: string
  paper_extraction_id :: string
  correlation_id :: string
  request_id :: string
  analysis_status :: GapStatus
  started_at :: "real option"
  completed_at :: "real option"
  error_message :: "string option"
  analysis_config :: "(string \<times> jval) list option"
  total_gaps_identified :: int
  valid_gaps_count :: int
  invalid_gaps_count :: int
  modified_gaps_count :: int

text \<open>
  \<^verbatim>\<open>GapDetail\<close>. The fields the language model fills are kept as the JSON values that arrived;
  whether pydantic accepts them is decided by the oracle \<open>pydantic_accepts\<close> below.
\<close>

record GapDetail =
  gapId :: string
  name :: string
  description :: string
  category :: string
  validationStatus :: string
  confidenceScore :: real
  potentialImpact :: jval
  researchHints :: jval
  implementationSuggestions :: jval
  risksAndChallenges :: jval
  requiredResources :: jval
  estimatedDifficulty :: jval
  estimatedTimeline :: jval
  evidenceAnchors :: jval
  supportingPapersCount :: int
  conflictingPapersCount :: int
  suggestedTopics :: "jval list"

record GapAnalysisResponse =
  resp_requestId :: string
  resp_correlationId :: string
  status :: string
  message :: string
  gapAnalysisId :: "string option"
  totalGaps :: int
  validGaps :: int
  gaps :: "GapDetail list option"
  error :: "string option"
  completedAt :: "real option"

text \<open>The dictionary \<^verbatim>\<open>_process_single_gap\<close> returns for a valid gap.\<close>

record GapData =
  gd_gap_id :: string
  gd_name :: string
  gd_description :: string
  gd_category :: string
  gd_validation_status :: string
  gd_confidence_score :: real
  gd_potential_impact :: jval
  gd_research_hints :: jval
  gd_implementation_suggestions :: jval
  gd_risks_and_challenges :: jval
  gd_required_resources :: jval
  gd_estimated_difficulty :: jval
  gd_estimated_timeline :: jval
  gd_evidence_anchors :: jval
  gd_suggested_topics :: jval

section \<open>gap\_analysis\_service.py\<close>

text \<open>
  What a \<^verbatim>\<open>GapAnalysisService\<close> works with: its three clients, the database session, the
  clock, \<^verbatim>\<open>uuid4\<close>, the settings it reads and the pydantic validation of a \<^verbatim>\<open>GapDetail\<close>.
  Every operation acts on a state \<open>'st\<close> and may raise (\<open>Inl msg\<close> or \<open>Some msg\<close>, with
  \<open>msg\<close> the \<^verbatim>\<open>str\<close> of the exception). \<open>session_commit\<close> takes the ORM object whose pending
  attribute changes the commit flushes.
\<close>

record 'st collaborators =
  run_connectivity_tests :: bool
  test_network_connectivity :: "'st \<Rightarrow> string option \<times> 'st"
  execute_upsert :: "GapAnalysisRequest \<Rightarrow> 'st \<Rightarrow> (string + string) \<times> 'st"
  session_commit :: "GapAnalysis option \<Rightarrow> 'st \<Rightarrow> string option \<times> 'st"
  session_get :: "string \<Rightarrow> 'st \<Rightarrow> (string + GapAnalysis option) \<times> 'st"
  session_rollback :: "'st \<Rightarrow> string option \<times> 'st"
  fetch_paper_data :: "string \<Rightarrow> string \<Rightarrow> 'st \<Rightarrow> (string + (PaperData \<times> ExtractedData) option) \<times> 'st"
  llm_generate_initial_gaps :: "PaperData \<Rightarrow> ExtractedData \<Rightarrow> 'st \<Rightarrow> (string + InitialGap list) \<times> 'st"
  llm_generate_search_query :: "InitialGap \<Rightarrow> 'st \<Rightarrow> (string + string) \<times> 'st"
  search_papers_op :: "string \<Rightarrow> nat \<Rightarrow> 'st \<Rightarrow> (string + PaperSearchResult list) \<times> 'st"
  extract_batch_op :: "PaperSearchResult list \<Rightarrow> 'st \<Rightarrow> (string + ExtractedContent list) \<times> 'st"
  llm_validate_gap :: "InitialGap \<Rightarrow> ExtractedContent list \<Rightarrow> 'st \<Rightarrow> (string + ValidationResult) \<times> 'st"
  llm_expand_gap_details :: "InitialGap \<Rightarrow> ValidationResult \<Rightarrow> 'st \<Rightarrow> (string + jval) \<times> 'st"
  now :: "'st \<Rightarrow> real \<times> 'st"
  uuid4 :: "'st \<Rightarrow> string \<times> 'st"
  gap_validation_papers :: nat
  pydantic_accepts :: "GapDetail \<Rightarrow> bool"
  py_str :: "jval \<Rightarrow> string"
  close_search_service :: "'st \<Rightarrow> string option \<times> 'st"
  close_grobid_client :: "'st \<Rightarrow> string option \<times> 'st"

definition no_papers_validation :: ValidationResult where
  "no_papers_validation = \<lparr>is_valid = True, confidence = 0.5,
     reasoning = ''No related papers found'', should_modify = False,
     modification_suggestion = None, supporting_papers = [], conflicting_papers = []\<rparr>"

definition assumed_valid :: ValidationResult where
  "assumed_valid = \<lparr>is_valid = True, confidence = 0.3,
     reasoning = ''Validation error - assumed valid'', should_modify = False,
     modification_suggestion = None, supporting_papers = [], conflicting_papers = []\<rparr>"

text \<open>
  \<^verbatim>\<open>_validate_gap\<close>. The inner handlers around the search and the extraction log and raise
  again (the same exception, or a \<^verbatim>\<open>ConnectionError\<close> for a DNS failure); the outer handler
  catches whatever is raised anywhere in the body.
\<close>

definition validate_gap_in_service ::
  "'st collaborators \<Rightarrow> InitialGap \<Rightarrow> 'st \<Rightarrow> ValidationResult \<times> 'st" where
  "validate_gap_in_service c gap s =
     (case llm_generate_search_query c gap s of
        (Inl e, s1) \<Rightarrow> (assumed_valid, s1)
      | (Inr search_query, s1) \<Rightarrow>
          (case search_papers_op c search_query (gap_validation_papers c) s1 of
             (Inl search_error, s2) \<Rightarrow> (assumed_valid, s2)
           | (Inr related_papers, s2) \<Rightarrow>
               (if related_papers = [] then (no_papers_validation, s2)
                else (case extract_batch_op c related_papers s2 of
                        (Inl grobid_error, s3) \<Rightarrow> (assumed_valid, s3)
                      | (Inr extracted_contents, s3) \<Rightarrow>
                          (case llm_validate_gap c gap extracted_contents s3 of
                             (Inl e, s4) \<Rightarrow> (assumed_valid, s4)
                           | (Inr validation_result, s4) \<Rightarrow> (validation_result, s4))))))"

definition validated_for_expansion :: ValidationResult where
  "validated_for_expansion = \<lparr>is_valid = True, confidence = 0.8, reasoning = ''Validated'',
     should_modify = False, modification_suggestion = None,
     supporting_papers = [], conflicting_papers = []\<rparr>"

text \<open>
  \<^verbatim>\<open>_expand_gap_details\<close>: the nine entries read with \<^verbatim>\<open>.get\<close>; the empty dictionary when the
  client raises or returns something that is not a dictionary.
\<close>

definition expand_gap_details_in_service ::
  "'st collaborators \<Rightarrow> InitialGap \<Rightarrow> 'st \<Rightarrow> (string \<times> jval) list \<times> 'st" where
  "expand_gap_details_in_service c gap s =
     (case llm_expand_gap_details c gap validated_for_expansion s of
        (Inl e, s1) \<Rightarrow> ([], s1)
      | (Inr expanded_details, s1) \<Rightarrow>
          (case expanded_details of
             JObj d \<Rightarrow>
               ([(''potential_impact'', dict_get d ''potential_impact''),
                 (''research_hints'', dict_get d ''research_hints''),
                 (''implementation_suggestions'', dict_get d ''implementation_suggestions''),
                 (''risks_and_challenges'', dict_get d ''risks_and_challenges''),
                 (''required_resources'', dict_get d ''required_resources''),
                 (''estimated_difficulty'', dict_get d ''estimated_difficulty''),
                 (''estimated_timeline'', dict_get d ''estimated_timeline''),
                 (''evidence_anchors'', dict_get_default d ''evidence_anchors'' (JArr [])),
                 (''suggested_topics'', dict_get_default d ''suggested_topics'' (JArr []))], s1)
           | _ \<Rightarrow> ([], s1)))"

text \<open>
  \<^verbatim>\<open>_process_single_gap\<close>. \<^verbatim>\<open>float(validation_result.confidence or 0.8)\<close> replaces a
  confidence of zero by 0.8. Nothing in the body raises, so the handler that returns
  \<^verbatim>\<open>None\<close> is not reached.
\<close>

definition process_single_gap ::
  "'st collaborators \<Rightarrow> string \<Rightarrow> InitialGap \<Rightarrow> nat \<Rightarrow> 'st \<Rightarrow> GapData option \<times> 'st" where
  "process_single_gap c an_id gap index s =
     (let (validation_result, s1) = validate_gap_in_service c gap s
      in if is_valid validation_result then
           (let (expanded_details, s2) = expand_gap_details_in_service c gap s1;
                (u, s3) = uuid4 c s2
            in (Some \<lparr>gd_gap_id = an_id @ ''-'' @ show_nat index @ ''-'' @ u,
                      gd_name = gap_name gap,
                      gd_description = gap_description gap,
                      gd_category = gap_category gap,
                      gd_validation_status = ''VALID'',
                      gd_confidence_score =
                        (if confidence validation_result = 0 then 0.8
                         else confidence validation_result),
                      gd_potential_impact = dict_get expanded_details ''potential_impact'',
                      gd_research_hints = dict_get expanded_details ''research_hints'',
                      gd_implementation_suggestions =
                        dict_get expanded_details ''implementation_suggestions'',
                      gd_risks_and_challenges = dict_get expanded_details ''risks_and_challenges'',
                      gd_required_resources = dict_get expanded_details ''required_resources'',
                      gd_estimated_difficulty = dict_get expanded_details ''estimated_difficulty'',
                      gd_estimated_timeline = dict_get expanded_details ''estimated_timeline'',
                      gd_evidence_anchors =
                        dict_get_default expanded_details ''evidence_anchors'' (JArr []),
                      gd_suggested_topics =
                        dict_get_default expanded_details ''suggested_topics'' (JArr [])\<rparr>, s3))
         else (None, s1))"

text \<open>The loop of \<^verbatim>\<open>analyze_paper\<close> over \<^verbatim>\<open>enumerate(initial_gaps)\<close>.\<close>

fun process_gaps ::
  "'st collaborators \<Rightarrow> string \<Rightarrow> InitialGap list \<Rightarrow> nat \<Rightarrow> 'st \<Rightarrow> GapData option list \<times> 'st" where
  "process_gaps c an_id [] i s = ([], s)"
| "process_gaps c an_id (gap # rest) i s =
     (let (result, s1) = process_single_gap c an_id gap i s;
          (results, s2) = process_gaps c an_id rest (i + 1) s1
      in (result # results, s2))"

definition valid_results :: "GapData option list \<Rightarrow> GapData list" where
  "valid_results gap_results = map the (filter (\<lambda>result. result \<noteq> None) gap_results)"

text \<open>\<^verbatim>\<open>_create_gap_analysis\<close>: the upsert, the commit, then \<^verbatim>\<open>session.get\<close>.\<close>

definition create_gap_analysis ::
  "'st collaborators \<Rightarrow> GapAnalysisRequest \<Rightarrow> 'st \<Rightarrow> (string + GapAnalysis option) \<times> 'st" where
  "create_gap_analysis c request s =
     (case execute_upsert c request s of
        (Inl e, s1) \<Rightarrow> (Inl e, s1)
      | (Inr an_id, s1) \<Rightarrow>
          (case session_commit c None s1 of
             (Some e, s2) \<Rightarrow> (Inl e, s2)
           | (None, s2) \<Rightarrow> session_get c an_id s2))"

definition update_analysis_summary ::
  "'st collaborators \<Rightarrow> GapAnalysis \<Rightarrow> int \<Rightarrow> int \<Rightarrow> 'st \<Rightarrow> (string option \<times> GapAnalysis) \<times> 'st" where
  "update_analysis_summary c analysis total_gaps valid_gaps s =
     (let (t, s1) = now c s;
          analysis1 = analysis\<lparr>total_gaps_identified := total_gaps,
                               valid_gaps_count := valid_gaps,
                               invalid_gaps_count := total_gaps - valid_gaps,
                               analysis_status := COMPLETED,
                               completed_at := Some t\<rparr>;
          (raised, s2) = session_commit c (Some analysis1) s1
      in ((raised, analysis1), s2))"

definition mark_analysis_completed ::
  "'st collaborators \<Rightarrow> GapAnalysis \<Rightarrow> int \<Rightarrow> int \<Rightarrow> int \<Rightarrow> int \<Rightarrow> 'st
     \<Rightarrow> (string option \<times> GapAnalysis) \<times> 'st" where
  "mark_analysis_completed c analysis total_gaps valid_gaps invalid_gaps modified_gaps s =
     (let (t, s1) = now c s;
          analysis1 = analysis\<lparr>analysis_status := COMPLETED,
                               total_gaps_identified := total_gaps,
                               valid_gaps_count := valid_gaps,
                               invalid_gaps_count := invalid_gaps,
                               modified_gaps_count := modified_gaps,
                               completed_at := Some t\<rparr>;
          (raised, s2) = session_commit c (Some analysis1) s1
      in ((raised, analysis1), s2))"

definition mark_analysis_failed ::
  "'st collaborators \<Rightarrow> GapAnalysis \<Rightarrow> string \<Rightarrow> 'st \<Rightarrow> (string option \<times> GapAnalysis) \<times> 'st" where
  "mark_analysis_failed c analysis err s =
     (let (t, s1) = now c s;
          analysis1 = analysis\<lparr>analysis_status := FAILED,
                               error_message := Some err,
                               completed_at := Some t\<rparr>;
          (raised, s2) = session_commit c (Some analysis1) s1
      in ((raised, analysis1), s2))"

text \<open>
  The three functions above return the exception of the commit, if any, together with the
  mutated object, which the handler of \<^verbatim>\<open>analyze_paper\<close> goes on using.
\<close>

definition truthy :: "jval \<Rightarrow> bool" where
  "truthy v = (case v of JNull \<Rightarrow> False | JBool b \<Rightarrow> b | JNum x \<Rightarrow> x \<noteq> 0 | JStr t \<Rightarrow> t \<noteq> []
                | JArr xs \<Rightarrow> xs \<noteq> [] | JObj d \<Rightarrow> d \<noteq> [])"

definition dict_set :: "(string \<times> jval) list \<Rightarrow> string \<Rightarrow> jval \<Rightarrow> (string \<times> jval) list" where
  "dict_set d k v = map (\<lambda>(k', v'). if k' = k then (k', v) else (k', v')) d"

text \<open>
  One iteration of \<^verbatim>\<open>_transform_suggested_topics\<close>. \<^verbatim>\<open>topic.copy()\<close> exists for a dictionary
  and for a list; on a list, \<^verbatim>\<open>in\<close> is membership and the subscript with a string raises.
\<close>

definition transform_topic :: "'st collaborators \<Rightarrow> jval \<Rightarrow> string + jval" where
  "transform_topic c topic =
     (case topic of
        JObj d \<Rightarrow>
          (let d1 = (case map_of d ''methodology_suggestions'' of
                       Some (JArr methodology) \<Rightarrow>
                         dict_set d ''methodology_suggestions''
                           (JStr (py_join ''; '' (map (py_str c) methodology)))
                     | _ \<Rightarrow> d);
               d2 = (case map_of d1 ''expected_outcomes'' of
                       Some (JArr outcomes) \<Rightarrow>
                         dict_set d1 ''expected_outcomes''
                           (JStr (py_join ''; '' (map (py_str c) outcomes)))
                     | _ \<Rightarrow> d1);
               d3 = (case map_of d2 ''research_questions'' of
                       None \<Rightarrow> d2
                     | Some (JArr questions) \<Rightarrow> d2
                     | Some questions \<Rightarrow>
                         dict_set d2 ''research_questions''
                           (if truthy questions then JArr [JStr (py_str c questions)] else JArr []))
           in Inr (JObj d3))
      | JArr xs \<Rightarrow>
          (if JStr ''methodology_suggestions'' \<in> set xs \<or> JStr ''expected_outcomes'' \<in> set xs
              \<or> JStr ''research_questions'' \<in> set xs
           then Inl ''list indices must be integers or slices, not str''
           else Inr (JArr xs))
      | _ \<Rightarrow> Inl ''object has no attribute copy'')"

fun transform_topics :: "'st collaborators \<Rightarrow> jval list \<Rightarrow> string + jval list" where
  "transform_topics c [] = Inr []"
| "transform_topics c (topic # rest) =
     (case transform_topic c topic of
        Inl e \<Rightarrow> Inl e
      | Inr transformed_topic \<Rightarrow>
          (case transform_topics c rest of
             Inl e \<Rightarrow> Inl e
           | Inr transformed_topics \<Rightarrow> Inr (transformed_topic # transformed_topics)))"

text \<open>
  \<^verbatim>\<open>_transform_suggested_topics\<close> on whatever \<^verbatim>\<open>gap_data.get('suggested_topics', [])\<close> holds:
  iterating a dictionary or a string yields strings, which have no \<^verbatim>\<open>copy\<close>; the other
  scalars are not iterable.
\<close>

definition transform_suggested_topics :: "'st collaborators \<Rightarrow> jval \<Rightarrow> string + jval list" where
  "transform_suggested_topics c suggested_topics =
     (case suggested_topics of
        JArr topics \<Rightarrow> transform_topics c topics
      | JObj d \<Rightarrow> (if d = [] then Inr [] else Inl ''object has no attribute copy'')
      | JStr t \<Rightarrow> (if t = [] then Inr [] else Inl ''object has no attribute copy'')
      | _ \<Rightarrow> Inl ''object is not iterable'')"

text \<open>The loop of \<^verbatim>\<open>_prepare_response\<close> that builds one \<^verbatim>\<open>GapDetail\<close> per valid gap.\<close>

fun gap_details :: "'st collaborators \<Rightarrow> GapData list \<Rightarrow> string + GapDetail list" where
  "gap_details c [] = Inr []"
| "gap_details c (gap_data # rest) =
     (case transform_suggested_topics c (gd_suggested_topics gap_data) of
        Inl e \<Rightarrow> Inl e
      | Inr suggested_topics \<Rightarrow>
          (let gap_detail = \<lparr>gapId = gd_gap_id gap_data,
                 name = gd_name gap_data,
                 description = gd_description gap_data,
                 category = gd_category gap_data,
                 validationStatus = gd_validation_status gap_data,
                 confidenceScore = gd_confidence_score gap_data,
                 potentialImpact = gd_potential_impact gap_data,
                 researchHints = gd_research_hints gap_data,
                 implementationSuggestions = gd_implementation_suggestions gap_data,
                 risksAndChallenges = gd_risks_and_challenges gap_data,
                 requiredResources = gd_required_resources gap_data,
                 estimatedDifficulty = gd_estimated_difficulty gap_data,
                 estimatedTimeline = gd_estimated_timeline gap_data,
                 evidenceAnchors = gd_evidence_anchors gap_data,
                 supportingPapersCount = 0,
                 conflictingPapersCount = 0,
                 suggestedTopics = suggested_topics\<rparr>
           in if \<not> pydantic_accepts c gap_detail then Inl ''validation error for GapDetail''
              else (case gap_details c rest of
                      Inl e \<Rightarrow> Inl e
                    | Inr details \<Rightarrow> Inr (gap_detail # details))))"

definition prepare_response ::
  "'st collaborators \<Rightarrow> GapAnalysis \<Rightarrow> GapData list \<Rightarrow> string + GapAnalysisResponse" where
  "prepare_response c analysis valid_gap_data =
     (case gap_details c valid_gap_data of
        Inl e \<Rightarrow> Inl e
      | Inr details \<Rightarrow>
          Inr \<lparr>resp_requestId = request_id analysis,
               resp_correlationId = correlation_id analysis,
               status = ''COMPLETED'',
               message = ''Successfully identified '' @ show_nat (length valid_gap_data)
                           @ '' valid research gaps'',
               gapAnalysisId = Some (analysis_id analysis),
               totalGaps = total_gaps_identified analysis,
               validGaps = valid_gaps_count analysis,
               gaps = Some details,
               error = None,
               completedAt = completed_at analysis\<rparr>)"

definition no_gaps_response :: "GapAnalysisRequest \<Rightarrow> GapAnalysis \<Rightarrow> GapAnalysisResponse" where
  "no_gaps_response request analysis =
     \<lparr>resp_requestId = requestId request,
      resp_correlationId = correlationId request,
      status = ''COMPLETED'',
      message = ''Analysis completed - no research gaps identified'',
      gapAnalysisId = Some (analysis_id analysis),
      totalGaps = 0, validGaps = 0, gaps = Some [], error = None, completedAt = None\<rparr>"

definition failed_response :: "GapAnalysisRequest \<Rightarrow> string \<Rightarrow> GapAnalysisResponse" where
  "failed_response request e =
     \<lparr>resp_requestId = requestId request,
      resp_correlationId = correlationId request,
      status = ''FAILED'',
      message = ''Analysis failed: '' @ e,
      gapAnalysisId = None,
      totalGaps = 0, validGaps = 0, gaps = None, error = Some e, completedAt = None\<rparr>"

text \<open>
  Steps 5 to 7 of \<^verbatim>\<open>analyze_paper\<close>: process the gaps in order, update the summary, prepare
  the response. The result is the response or the exception raised, with the \<^verbatim>\<open>analysis\<close>
  object as it is at that point.
\<close>

definition analyze_gaps ::
  "'st collaborators \<Rightarrow> GapAnalysis \<Rightarrow> InitialGap list \<Rightarrow> 'st
     \<Rightarrow> ((string + GapAnalysisResponse) \<times> GapAnalysis) \<times> 'st" where
  "analyze_gaps c analysis initial_gaps s =
     (let (gap_results, s1) = process_gaps c (analysis_id analysis) initial_gaps 0 s;
          valid_gap_data = valid_results gap_results;
          ((raised, analysis1), s2) =
             update_analysis_summary c analysis (int (length initial_gaps))
               (int (length valid_gap_data)) s1
      in case raised of
           Some e \<Rightarrow> ((Inl e, analysis1), s2)
         | None \<Rightarrow> ((prepare_response c analysis1 valid_gap_data, analysis1), s2))"

text \<open>
  The \<^verbatim>\<open>try\<close> block of \<^verbatim>\<open>analyze_paper\<close>: the response, or the exception raised together
  with the value the variable \<^verbatim>\<open>analysis\<close> has when it is raised.
\<close>

definition analyze_paper_body ::
  "'st collaborators \<Rightarrow> GapAnalysisRequest \<Rightarrow> 'st
     \<Rightarrow> ((string + GapAnalysisResponse) \<times> GapAnalysis option) \<times> 'st" where
  "analyze_paper_body c request s =
     (case (if run_connectivity_tests c then test_network_connectivity c s else (None, s)) of
        (Some e, s1) \<Rightarrow> ((Inl e, None), s1)
      | (None, s1) \<Rightarrow>
     (case create_gap_analysis c request s1 of
        (Inl e, s2) \<Rightarrow> ((Inl e, None), s2)
      | (Inr None, s2) \<Rightarrow> ((Inl ''NoneType object has no attribute id'', None), s2)
      | (Inr (Some analysis), s2) \<Rightarrow>
     (case fetch_paper_data c (paperId request) (paperExtractionId request) s2 of
        (Inl e, s3) \<Rightarrow> ((Inl e, Some analysis), s3)
      | (Inr None, s3) \<Rightarrow> ((Inl ''Paper not found'', Some analysis), s3)
      | (Inr (Some (paper_data, extracted_content)), s3) \<Rightarrow>
     (case llm_generate_initial_gaps c paper_data extracted_content s3 of
        (Inl e, s4) \<Rightarrow> ((Inl e, Some analysis), s4)
      | (Inr initial_gaps, s4) \<Rightarrow>
          (if initial_gaps = [] then
             (let ((raised, analysis1), s5) = mark_analysis_completed c analysis 0 0 0 0 s4
              in case raised of
                   Some e \<Rightarrow> ((Inl e, Some analysis1), s5)
                 | None \<Rightarrow> ((Inr (no_gaps_response request analysis1), Some analysis1), s5))
           else
             (let ((outcome, analysis1), s5) = analyze_gaps c analysis initial_gaps s4
              in ((outcome, Some analysis1), s5)))))))"

text \<open>
  The \<^verbatim>\<open>except\<close> block: roll back, mark the analysis failed when there is one (exceptions of
  both steps are logged and dropped), and answer FAILED.
\<close>

definition handle_failure ::
  "'st collaborators \<Rightarrow> GapAnalysisRequest \<Rightarrow> string \<Rightarrow> GapAnalysis option \<Rightarrow> 'st
     \<Rightarrow> GapAnalysisResponse \<times> 'st" where
  "handle_failure c request e analysis s =
     (let (rollback_error, s1) = session_rollback c s;
          s2 = (case analysis of
                  None \<Rightarrow> s1
                | Some a \<Rightarrow> snd (mark_analysis_failed c a e s1))
      in (failed_response request e, s2))"

text \<open>
  \<^verbatim>\<open>analyze_paper\<close>, with its \<^verbatim>\<open>finally\<close> block: an exception while closing a client
  replaces the response.
\<close>

definition analyze_paper ::
  "'st collaborators \<Rightarrow> GapAnalysisRequest \<Rightarrow> 'st \<Rightarrow> (string + GapAnalysisResponse) \<times> 'st" where
  "analyze_paper c request s =
     (let ((outcome, analysis), s1) = analyze_paper_body c request s;
          (response, s2) = (case outcome of
                              Inr r \<Rightarrow> (r, s1)
                            | Inl e \<Rightarrow> handle_failure c request e analysis s1)
      in case close_search_service c s2 of
           (Some e, s3) \<Rightarrow> (Inl e, s3)
         | (None, s3) \<Rightarrow>
             (case close_grobid_client c s3 of
                (Some e, s4) \<Rightarrow> (Inl e, s4)
              | (None, s4) \<Rightarrow> (Inr response, s4)))"

section \<open>Concrete inputs\<close>

definition paper_titled :: "string \<Rightarrow> PaperSearchResult" where
  "paper_titled t = \<lparr>title = t, abstract = None, doi = None, url = None, pdf_url = None,
     publication_date = None, authors = [], venue = None\<rparr>"

definition empty_feed_env :: "unit search_env" where
  "empty_feed_env = \<lparr>arxiv_get = (\<lambda>q n w. (ArxivResponse 200 (Some []), w))\<rparr>"

definition initial_state :: "unit state" where
  "initial_state = \<lparr>world = (), trace = []\<rparr>"

definition busy_grobid_env :: "unit grobid_env" where
  "busy_grobid_env = \<lparr>grobid_post = (\<lambda>pdf w. (PostResponse 503 [], w)),
     http_get = (\<lambda>u ua w. (GetResponse 404 [], w)),
     parse_tei_xml = (\<lambda>x. failed_extraction ''XML parsing error'')\<rparr>"

definition error_page_env :: "unit grobid_env" where
  "error_page_env = \<lparr>grobid_post = (\<lambda>pdf w. (PostResponse 200 [], w)),
     http_get = (\<lambda>u ua w. if u = ''https://arxiv.org/pdf/2401.00001.pdf''
                            then (GetResponse 200 ''<html>busy</html>'', w)
                            else (GetResponse 404 [], w)),
     parse_tei_xml = (\<lambda>x. failed_extraction ''XML parsing error'')\<rparr>"

definition pdf_payload :: string where
  "pdf_payload = replicate 1000 CHR ''%''"

fun grobid_posts :: "event list \<Rightarrow> string list" where
  "grobid_posts [] = []"
| "grobid_posts (GrobidPost p # es) = p # grobid_posts es"
| "grobid_posts (e # es) = grobid_posts es"

fun arxiv_queries :: "event list \<Rightarrow> string list" where
  "arxiv_queries [] = []"
| "arxiv_queries (ArxivGet q n # es) = q # arxiv_queries es"
| "arxiv_queries (e # es) = arxiv_queries es"

text \<open>What identifies a gap in the response, read off a \<^verbatim>\<open>GapDetail\<close> and off the gap data.\<close>

definition detail_key :: "GapDetail \<Rightarrow> string \<times> string \<times> string \<times> real" where
  "detail_key d = (gapId d, name d, validationStatus d, confidenceScore d)"

definition data_key :: "GapData \<Rightarrow> string \<times> string \<times> string \<times> real" where
  "data_key g = (gd_gap_id g, gd_name g, gd_validation_status g, gd_confidence_score g)"

definition gap_one :: InitialGap where
  "gap_one = \<lparr>gap_name = ''Quantum error mitigation'',
     gap_description = ''No evaluation on hardware'', gap_category = ''empirical'',
     gap_reasoning = ''Only simulated'', gap_evidence = ''Section 5''\<rparr>"

definition gap_two :: InitialGap where
  "gap_two = \<lparr>gap_name = ''Scalability of the decoder'',
     gap_description = ''Tested up to distance 5'', gap_category = ''methodological'',
     gap_reasoning = ''Larger codes untested'', gap_evidence = ''Section 6''\<rparr>"

definition stored_analysis :: GapAnalysis where
  "stored_analysis = \<lparr>analysis_id = ''a-1'', paper_id = ''p-1'', paper_extraction_id = ''e-1'',
     correlation_id = ''c-1'', request_id = ''r-1'', analysis_status = PROCESSING,
     started_at = Some 0, completed_at = None, error_message = None, analysis_config = Some [],
     total_gaps_identified = 0, valid_gaps_count = 0, invalid_gaps_count = 0,
     modified_gaps_count = 0\<rparr>"

definition the_request :: GapAnalysisRequest where
  "the_request = \<lparr>paperId = ''p-1'', paperExtractionId = ''e-1'', correlationId = ''c-1'',
     requestId = ''r-1'', config = Some []\<rparr>"

definition invalid_verdict :: ValidationResult where
  "invalid_verdict = \<lparr>is_valid = False, confidence = 0.9, reasoning = ''Addressed'',
     should_modify = False, modification_suggestion = None, supporting_papers = [],
     conflicting_papers = []\<rparr>"

text \<open>
  A service whose state is the list of the operations performed. The language model finds
  two gaps; the search finds no paper for the first and raises for the second; the expansion
  raises; the validator, if it were asked, would declare every gap invalid.
\<close>

definition stub :: "string list collaborators" where
  "stub = \<lparr>run_connectivity_tests = False,
     test_network_connectivity = (\<lambda>s. (None, s @ [''connectivity''])),
     execute_upsert = (\<lambda>request s. (Inr ''a-1'', s @ [''upsert''])),
     session_commit = (\<lambda>a s. (None, s @ [''commit''])),
     session_get = (\<lambda>i s. (Inr (Some stored_analysis), s @ [''get''])),
     session_rollback = (\<lambda>s. (None, s @ [''rollback''])),
     fetch_paper_data = (\<lambda>p e s.
       (Inr (Some (\<lparr>pd_title = Some ''A paper'', abstract_text = None, pd_doi = None,
                      pd_publication_date = None\<rparr>,
                    \<lparr>sections = [], figures = [], tables = [], conclusion = None\<rparr>)),
        s @ [''fetch''])),
     llm_generate_initial_gaps = (\<lambda>p e s. (Inr [gap_one, gap_two], s @ [''generate''])),
     llm_generate_search_query = (\<lambda>g s. (Inr (gap_name g), s @ [''query''])),
     search_papers_op = (\<lambda>q n s.
       (if q = ''Quantum error mitigation'' then Inr [] else Inl ''timed out'', s @ [''search''])),
     extract_batch_op = (\<lambda>ps s. (Inr [], s @ [''extract''])),
     llm_validate_gap = (\<lambda>g ecs s. (Inr invalid_verdict, s @ [''validate''])),
     llm_expand_gap_details = (\<lambda>g v s. (Inl ''429 quota'', s @ [''expand''])),
     now = (\<lambda>s. (1, s)),
     uuid4 = (\<lambda>s. (''u'', s)),
     gap_validation_papers = 5,
     pydantic_accepts = (\<lambda>d. True),
     py_str = (\<lambda>v. case v of JStr t \<Rightarrow> t | _ \<Rightarrow> ''''),
     close_search_service = (\<lambda>s. (None, s @ [''close''])),
     close_grobid_client = (\<lambda>s. (None, s @ [''close'']))\<rparr>"

text \<open>A language model that answers every validation request with a quota error.\<close>

definition quota_env :: "unit gemini_env" where
  "quota_env = \<lparr>clock = (\<lambda>w. (150, w)),
     random_uniform = (\<lambda>w. (0.5, w)),
     model_initial_gaps = (\<lambda>p e w. (Inr [gap_one], w)),
     model_search_query = (\<lambda>g w. (Inr ''quantum error mitigation'', w)),
     model_validate = (\<lambda>g ecs w. (Inl ''429 Resource exhausted'', w)),
     model_expand = (\<lambda>g v w. (Inl ''quota exceeded'', w))\<rparr>"


text \<open>
  What a concluded run says of its response: the counters, the \<open>gaps\<close> array and the gap
  results it was built from.
\<close>

definition run_summary ::
  "GapAnalysisResponse \<Rightarrow> InitialGap list \<Rightarrow> GapData option list \<Rightarrow> GapDetail list \<Rightarrow> bool" where
  "run_summary r initial_gaps gap_results ds \<longleftrightarrow>
     status r = ''COMPLETED''
     \<and> totalGaps r = int (length initial_gaps)
     \<and> validGaps r = int (length (valid_results gap_results))
     \<and> gaps r = Some ds
     \<and> map detail_key ds = map data_key (valid_results gap_results)"




section \<open>Properties of the search service\<close>

lemma arxiv_queries_append: "arxiv_queries (xs @ ys) = arxiv_queries xs @ arxiv_queries ys"
  by (induction xs rule: arxiv_queries.induct) simp_all

lemma search_arxiv_trace:
  "search_arxiv env q n s = (r, s') \<Longrightarrow>
     trace s' = trace s @ [RateLimitWait ''arxiv'', ArxivGet (py_lower (py_strip q)) n]"
  by (auto simp: search_arxiv_def emit_def Let_def
           split: prod.splits arxiv_outcome.splits option.splits if_splits)

lemma similarity_punctuation:
  "calculate_similarity ''Deep Learning.'' ''Deep Learning'' = 1 / 3"
  by code_simp

lemma similarity_case_spacing:
  "calculate_similarity ''deep  learning'' ''Deep Learning'' = 1"
  by code_simp

text \<open>
  C4, as stated, fails: the title \<^verbatim>\<open>Deep Learning.\<close> differs from \<^verbatim>\<open>Deep Learning\<close> only in
  its trailing full stop, the token sets are \<^verbatim>\<open>{deep, learning.}\<close> and \<^verbatim>\<open>{deep, learning}\<close>,
  the similarity is 1/3, and both results are kept.
\<close>

theorem remove_duplicates_trailing_punctuation_counterexample:
  "title (paper_titled ''Deep Learning.'') = title (paper_titled ''Deep Learning'') @ ''.'' \<and>
   remove_duplicates [paper_titled ''Deep Learning'', paper_titled ''Deep Learning.''] =
     [paper_titled ''Deep Learning'', paper_titled ''Deep Learning.'']"
  by (simp add: remove_duplicates_def paper_titled_def similarity_punctuation)

lemma is_duplicate_iff:
  "is_duplicate result unique_results \<longleftrightarrow>
     (\<exists>kept \<in> set unique_results. calculate_similarity (title result) (title kept) > 0.8)"
  by (induction unique_results) auto

lemma dedup_loop_snoc:
  "dedup_loop acc (xs @ [x]) =
     (if is_duplicate x (dedup_loop acc xs) then dedup_loop acc xs else dedup_loop acc xs @ [x])"
  by (induction xs arbitrary: acc) auto

lemma remove_duplicates_snoc:
  "remove_duplicates (results @ [result]) =
     (if \<exists>kept \<in> set (remove_duplicates results).
           calculate_similarity (title result) (title kept) > 0.8
      then remove_duplicates results else remove_duplicates results @ [result])"
proof (cases results)
  case Nil
  then show ?thesis by (simp add: remove_duplicates_def)
next
  case (Cons first rest)
  then show ?thesis
    by (simp add: remove_duplicates_def dedup_loop_snoc is_duplicate_iff)
qed

lemma split_acc_nonempty:
  "cur \<noteq> [] \<or> (\<exists>c \<in> set t. \<not> is_space c) \<Longrightarrow> split_acc cur t \<noteq> []"
  by (induction t arbitrary: cur) auto

lemma split_acc_snoc:
  assumes "\<not> is_space p" and "t = [] \<longrightarrow> cur \<noteq> []" and "t \<noteq> [] \<longrightarrow> \<not> is_space (last t)"
  shows "split_acc cur (t @ [p]) = butlast (split_acc cur t) @ [last (split_acc cur t) @ [p]]"
  using assms
proof (induction t arbitrary: cur)
  case Nil
  then show ?case by simp
next
  case (Cons c cs)
  show ?case
  proof (cases "is_space c")
    case True
    with Cons.prems have ne: "cs \<noteq> []" and l: "\<not> is_space (last cs)"
      by (auto split: if_splits)
    then have "\<exists>c \<in> set cs. \<not> is_space c" using last_in_set by blast
    then have n: "split_acc [] cs \<noteq> []" using split_acc_nonempty by blast
    from Cons.IH [of "[]"] Cons.prems ne l
    have "split_acc [] (cs @ [p]) = butlast (split_acc [] cs) @ [last (split_acc [] cs) @ [p]]"
      by simp
    with True n show ?thesis by simp
  next
    case False
    from Cons.IH [of "cur @ [c]"] Cons.prems
    have "split_acc (cur @ [c]) (cs @ [p])
        = butlast (split_acc (cur @ [c]) cs) @ [last (split_acc (cur @ [c]) cs) @ [p]]"
      by (auto split: if_splits)
    with False show ?thesis by simp
  qed
qed

lemma py_split_snoc:
  assumes "\<not> is_space p" and "t \<noteq> []" and "\<not> is_space (last t)"
  shows "py_split (t @ [p]) = butlast (py_split t) @ [last (py_split t) @ [p]]"
  using split_acc_snoc [of p t "[]"] assms by (simp add: py_split_def)

lemma py_split_nonempty:
  assumes "t \<noteq> []" and "\<not> is_space (last t)"
  shows "py_split t \<noteq> []"
  using split_acc_nonempty [of "[]" t] assms last_in_set by (auto simp: py_split_def)

lemma similarity_sym: "calculate_similarity a b = calculate_similarity b a"
  by (simp add: calculate_similarity_def Let_def Int_commute Un_commute)

lemma is_space_code:
  "is_space c \<longleftrightarrow> (of_char c :: nat) \<in> {32, 9, 10, 11, 12, 13, 28, 29, 30, 31, 133, 160}"
proof -
  have e: "\<And>d. (c = d) = ((of_char c :: nat) = of_char d)" by simp
  show ?thesis
    unfolding is_space_def by (simp add: e)
qed

lemma is_space_lower: "is_space (lower_char c) = is_space c"
proof -
  have "(of_char c :: nat) < 256" by simp
  then show ?thesis
    by (auto simp: is_space_code lower_char_def Let_def)
qed

lemma tokens_trailing:
  assumes t: "t \<noteq> []" and l: "\<not> is_space (last t)" and p: "\<not> is_space p"
    and lp: "lower_char p = p"
  shows "py_split (py_lower (t @ [p]))
     = butlast (py_split (py_lower t)) @ [last (py_split (py_lower t)) @ [p]]"
    and "py_split (py_lower t) \<noteq> []"
proof -
  have a: "py_lower (t @ [p]) = py_lower t @ [p]" using lp by (simp add: py_lower_def)
  have b: "py_lower t \<noteq> []" using t by (simp add: py_lower_def)
  have c: "\<not> is_space (last (py_lower t))"
    using t l by (simp add: py_lower_def last_map is_space_lower)
  show "py_split (py_lower (t @ [p]))
     = butlast (py_split (py_lower t)) @ [last (py_split (py_lower t)) @ [p]]"
    unfolding a by (rule py_split_snoc [OF p b c])
  show "py_split (py_lower t) \<noteq> []" by (rule py_split_nonempty [OF b c])
qed

lemma similarity_trailing:
  assumes t: "t \<noteq> []" and l: "\<not> is_space (last t)" and p: "\<not> is_space p"
    and lp: "lower_char p = p"
    and d: "distinct (py_split (py_lower t))"
    and f: "last (py_split (py_lower t)) @ [p] \<notin> set (py_split (py_lower t))"
  shows "calculate_similarity (t @ [p]) t
     = (real (length (py_split (py_lower t))) - 1) / (real (length (py_split (py_lower t))) + 1)"
proof -
  define ws where "ws = py_split (py_lower t)"
  define w where "w = last ws"
  define bs where "bs = butlast ws"
  have ne: "ws \<noteq> []" unfolding ws_def by (rule tokens_trailing(2) [OF t l p lp])
  have ws: "ws = bs @ [w]" using ne by (simp add: w_def bs_def)
  have ws': "py_split (py_lower (t @ [p])) = bs @ [w @ [p]]"
    using tokens_trailing(1) [OF t l p lp] by (simp add: ws_def w_def bs_def)
  have wb: "w \<notin> set bs" and db: "distinct bs" using d ws unfolding ws_def [symmetric] by auto
  have fb: "w @ [p] \<notin> set bs" and "w @ [p] \<noteq> w" using f ws unfolding ws_def [symmetric] w_def [symmetric] by auto
  have i: "set (bs @ [w @ [p]]) \<inter> set (bs @ [w]) = set bs"
    using wb fb by auto
  have u: "set (bs @ [w @ [p]]) \<union> set (bs @ [w]) = insert (w @ [p]) (insert w (set bs))"
    by auto
  have ci: "card (set bs) = length bs" using db by (simp add: distinct_card)
  have cu: "card (insert (w @ [p]) (insert w (set bs))) = length bs + 2"
    using wb fb ci by simp
  have len: "length ws = length bs + 1" using ws by simp
  have "calculate_similarity (t @ [p]) t = real (length bs) / real (length bs + 2)"
    using t ws ws' i u ci cu
    by (simp add: calculate_similarity_def Let_def ws_def [symmetric])
  also have "\<dots> = (real (length ws) - 1) / (real (length ws) + 1)"
    using len by simp
  finally show ?thesis unfolding ws_def .
qed

lemma dedup_loop_prefix: "\<exists>ys. dedup_loop acc xs = acc @ ys"
proof (induction xs arbitrary: acc)
  case Nil
  then show ?case by simp
next
  case (Cons x xs)
  from Cons [of "if is_duplicate x acc then acc else acc @ [x]"]
  show ?case by (cases "is_duplicate x acc") auto
qed

lemma remove_duplicates_first:
  "remove_duplicates (first # rest) = first # tl (remove_duplicates (first # rest))"
  using dedup_loop_prefix [of "[first]" rest] by (auto simp: remove_duplicates_def)

lemma remove_duplicates_two:
  "remove_duplicates [a, b] =
     (if calculate_similarity (title b) (title a) > 0.8 then [a] else [a, b])"
  by (simp add: remove_duplicates_def)

lemma threshold_tokens: "(real n - 1) / (real n + 1) > 0.8 \<longleftrightarrow> 10 \<le> n"
proof -
  have "(real n - 1) / (real n + 1) > 0.8 \<longleftrightarrow> 0.8 * (real n + 1) < real n - 1"
    by (simp add: pos_less_divide_eq)
  also have "\<dots> \<longleftrightarrow> 4 * (real n + 1) < 5 * (real n - 1)" by (simp add: field_simps)
  also have "\<dots> \<longleftrightarrow> 9 < real n" by auto
  also have "\<dots> \<longleftrightarrow> 10 \<le> n" by auto
  finally show ?thesis .
qed

text \<open>
  C4, amended. The first result is kept, and a later result is suppressed exactly when the
  Jaccard similarity of its title with the title of some result kept before it is strictly
  greater than 0.8 (the similarity being taken over the sets of lowercased whitespace-split
  tokens, of which punctuation is a part). For two titles that differ only in one trailing
  punctuation character, the title having \<open>n\<close> tokens, all distinct, and the punctuated last
  token not being one of them, the similarity is \<open>(n - 1) / (n + 1)\<close>: of two such results the
  later one is suppressed exactly when the title has at least 10 tokens, in either order.
\<close>

theorem remove_duplicates_suppression:
  "remove_duplicates [] = []
   \<and> remove_duplicates (first # rest) = first # tl (remove_duplicates (first # rest))
   \<and> remove_duplicates (results @ [result]) =
       (if \<exists>kept \<in> set (remove_duplicates results).
             calculate_similarity (title result) (title kept) > 0.8
        then remove_duplicates results else remove_duplicates results @ [result])
   \<and> (t \<noteq> [] \<and> \<not> is_space (last t) \<and> \<not> is_space p \<and> lower_char p = p
        \<and> distinct (py_split (py_lower t))
        \<and> last (py_split (py_lower t)) @ [p] \<notin> set (py_split (py_lower t))
        \<and> title a = t \<and> title b = t @ [p]
      \<longrightarrow> calculate_similarity (title b) (title a)
            = (real (length (py_split (py_lower t))) - 1) / (real (length (py_split (py_lower t))) + 1)
          \<and> calculate_similarity (title a) (title b) = calculate_similarity (title b) (title a)
          \<and> (remove_duplicates [a, b] = [a] \<longleftrightarrow> 10 \<le> length (py_split (py_lower t)))
          \<and> (remove_duplicates [a, b] = [a, b] \<longleftrightarrow> length (py_split (py_lower t)) < 10)
          \<and> (remove_duplicates [b, a] = [b] \<longleftrightarrow> 10 \<le> length (py_split (py_lower t)))
          \<and> (remove_duplicates [b, a] = [b, a] \<longleftrightarrow> length (py_split (py_lower t)) < 10))"
proof (intro conjI impI)
  show "remove_duplicates [] = []" by (simp add: remove_duplicates_def)
  show "remove_duplicates (first # rest) = first # tl (remove_duplicates (first # rest))"
    by (rule remove_duplicates_first)
  show "remove_duplicates (results @ [result]) =
       (if \<exists>kept \<in> set (remove_duplicates results).
             calculate_similarity (title result) (title kept) > 0.8
        then remove_duplicates results else remove_duplicates results @ [result])"
    by (rule remove_duplicates_snoc)
next
  assume h: "t \<noteq> [] \<and> \<not> is_space (last t) \<and> \<not> is_space p \<and> lower_char p = p
        \<and> distinct (py_split (py_lower t))
        \<and> last (py_split (py_lower t)) @ [p] \<notin> set (py_split (py_lower t))
        \<and> title a = t \<and> title b = t @ [p]"
  define n where "n = length (py_split (py_lower t))"
  from h have v: "calculate_similarity (title b) (title a) = (real n - 1) / (real n + 1)"
    unfolding n_def using similarity_trailing [of t p] by simp
  have y: "calculate_similarity (title a) (title b) = calculate_similarity (title b) (title a)"
    by (rule similarity_sym)
  show "calculate_similarity (title b) (title a)
            = (real (length (py_split (py_lower t))) - 1) / (real (length (py_split (py_lower t))) + 1)"
    using v unfolding n_def .
  show "calculate_similarity (title a) (title b) = calculate_similarity (title b) (title a)"
    by (rule y)
  show "remove_duplicates [a, b] = [a] \<longleftrightarrow> 10 \<le> length (py_split (py_lower t))"
    using v threshold_tokens [of n] unfolding n_def [symmetric]
    by (simp add: remove_duplicates_two)
  show "remove_duplicates [a, b] = [a, b] \<longleftrightarrow> length (py_split (py_lower t)) < 10"
    using v threshold_tokens [of n] unfolding n_def [symmetric]
    by (auto simp: remove_duplicates_two)
  show "remove_duplicates [b, a] = [b] \<longleftrightarrow> 10 \<le> length (py_split (py_lower t))"
    using v y threshold_tokens [of n] unfolding n_def [symmetric]
    by (simp add: remove_duplicates_two)
  show "remove_duplicates [b, a] = [b, a] \<longleftrightarrow> length (py_split (py_lower t)) < 10"
    using v y threshold_tokens [of n] unfolding n_def [symmetric]
    by (auto simp: remove_duplicates_two)
qed

theorem remove_duplicates_suppression_witness:
  "remove_duplicates
     [paper_titled ''survey of deep learning methods for graph data in biology'',
      paper_titled ''survey of deep learning methods for graph data in biology.'']
     = [paper_titled ''survey of deep learning methods for graph data in biology'']
   \<and> remove_duplicates
     [paper_titled ''deep learning methods for graph data in biology'',
      paper_titled ''deep learning methods for graph data in biology.'']
     = [paper_titled ''deep learning methods for graph data in biology'',
        paper_titled ''deep learning methods for graph data in biology.'']
   \<and> remove_duplicates ([paper_titled ''Deep Learning''] @ [paper_titled ''deep  learning''])
     = [paper_titled ''Deep Learning'']"
proof -
  let ?t = "''survey of deep learning methods for graph data in biology''"
  let ?u = "''deep learning methods for graph data in biology''"
  have ht: "?t \<noteq> [] \<and> \<not> is_space (last ?t) \<and> \<not> is_space CHR ''.'' \<and> lower_char CHR ''.'' = CHR ''.''
        \<and> distinct (py_split (py_lower ?t))
        \<and> last (py_split (py_lower ?t)) @ [CHR ''.''] \<notin> set (py_split (py_lower ?t))"
    by code_simp
  have hu: "?u \<noteq> [] \<and> \<not> is_space (last ?u) \<and> \<not> is_space CHR ''.'' \<and> lower_char CHR ''.'' = CHR ''.''
        \<and> distinct (py_split (py_lower ?u))
        \<and> last (py_split (py_lower ?u)) @ [CHR ''.''] \<notin> set (py_split (py_lower ?u))"
    by code_simp
  have nt: "length (py_split (py_lower ?t)) = 10" by code_simp
  have nu: "length (py_split (py_lower ?u)) = 8" by code_simp
  have a: "remove_duplicates [paper_titled ?t, paper_titled (?t @ ''.'')] = [paper_titled ?t]"
    using remove_duplicates_suppression
      [of undefined undefined undefined undefined ?t "CHR ''.''" "paper_titled ?t" "paper_titled (?t @ ''.'')",
       THEN conjunct2, THEN conjunct2, THEN conjunct2] ht nt
    by (simp add: paper_titled_def)
  have b: "remove_duplicates [paper_titled ?u, paper_titled (?u @ ''.'')]
      = [paper_titled ?u, paper_titled (?u @ ''.'')]"
    using remove_duplicates_suppression
      [of undefined undefined undefined undefined ?u "CHR ''.''" "paper_titled ?u" "paper_titled (?u @ ''.'')",
       THEN conjunct2, THEN conjunct2, THEN conjunct2] hu nu
    by (simp add: paper_titled_def)
  have c: "remove_duplicates ([paper_titled ''Deep Learning''] @ [paper_titled ''deep  learning''])
     = [paper_titled ''Deep Learning'']"
    using remove_duplicates_suppression
      [of undefined undefined "[paper_titled ''Deep Learning'']" "paper_titled ''deep  learning''",
       THEN conjunct2, THEN conjunct2, THEN conjunct1]
    by (simp add: remove_duplicates_def paper_titled_def similarity_case_spacing)
  from a b c show ?thesis by simp
qed

text \<open>
  C3, as stated, fails: for the one-word query \<^verbatim>\<open>transformers\<close> the original search returns
  no result and \<^verbatim>\<open>search_papers\<close> issues no further search, neither with the first two words
  nor with the first word.
\<close>

theorem search_papers_one_word_counterexample:
  "fst (search_arxiv empty_feed_env ''transformers'' 5 initial_state) = [] \<and>
   search_papers empty_feed_env ''transformers'' 5 initial_state =
     ([], \<lparr>world = (), trace = [RateLimitWait ''arxiv'', ArxivGet ''transformers'' 5]\<rparr>)"
  by code_simp

text \<open>
  C3, amended: if searching with the original query returns zero results, then
  \<^verbatim>\<open>search_papers\<close> retries with the first two whitespace-separated words joined by a space
  only when the query has more than two words, and, if there is still no result, retries
  with the first word alone only when the query has more than one word; a query of at most
  one word is not retried. The searches issued, in order, and the value returned are:
\<close>

theorem search_papers_degradation:
  assumes first: "search_arxiv env query n s = ([], s1)"
    and second: "search_arxiv env (py_join '' '' (take 2 (py_split query))) n s1 = (r2, s2)"
    and third: "search_arxiv env (hd (py_split query)) n
                  (if length (py_split query) > 2 then s2 else s1) = (r3, s3)"
  shows "arxiv_queries (trace (snd (search_papers env query n s))) =
           arxiv_queries (trace s) @ map (\<lambda>q. py_lower (py_strip q))
             (if length (py_split query) > 2 then
                (if r2 = [] then [query, py_join '' '' (take 2 (py_split query)), hd (py_split query)]
                 else [query, py_join '' '' (take 2 (py_split query))])
              else if length (py_split query) > 1 then [query, hd (py_split query)]
              else [query])
         \<and> fst (search_papers env query n s) =
             take n (remove_duplicates
               (if length (py_split query) > 2 then (if r2 = [] then r3 else r2)
                else if length (py_split query) > 1 then r3 else []))"
proof -
  note t1 = search_arxiv_trace [OF first]
  note t2 = search_arxiv_trace [OF second]
  note t3 = search_arxiv_trace [OF third]
  show ?thesis
  proof (cases "length (py_split query) > 2")
    case True
    with first second third t1 t2 t3 show ?thesis
      by (cases "r2 = []") (simp_all add: search_papers_def arxiv_queries_append)
  next
    case False
    with first third t1 t3 show ?thesis
      by (cases "length (py_split query) > 1")
         (simp_all add: search_papers_def arxiv_queries_append remove_duplicates_def)
  qed
qed

theorem search_papers_degradation_witness:
  "arxiv_queries (trace (snd (search_papers empty_feed_env ''Graph  neural networks'' 5 initial_state))) =
     [''graph  neural networks'', ''graph neural'', ''graph'']"
proof -
  have a: "search_arxiv empty_feed_env ''Graph  neural networks'' 5 initial_state =
      ([], \<lparr>world = (), trace = [RateLimitWait ''arxiv'', ArxivGet ''graph  neural networks'' 5]\<rparr>)"
    by code_simp
  have w: "py_split ''Graph  neural networks'' = [''Graph'', ''neural'', ''networks'']"
    by code_simp
  have b: "search_arxiv empty_feed_env (py_join '' '' (take 2 (py_split ''Graph  neural networks''))) 5
      \<lparr>world = (), trace = [RateLimitWait ''arxiv'', ArxivGet ''graph  neural networks'' 5]\<rparr> =
      ([], \<lparr>world = (), trace = [RateLimitWait ''arxiv'', ArxivGet ''graph  neural networks'' 5,
             RateLimitWait ''arxiv'', ArxivGet ''graph neural'' 5]\<rparr>)"
    by code_simp
  have c: "search_arxiv empty_feed_env (hd (py_split ''Graph  neural networks'')) 5
      (if length (py_split ''Graph  neural networks'') > 2
       then \<lparr>world = (), trace = [RateLimitWait ''arxiv'', ArxivGet ''graph  neural networks'' 5,
             RateLimitWait ''arxiv'', ArxivGet ''graph neural'' 5]\<rparr>
       else \<lparr>world = (), trace = [RateLimitWait ''arxiv'', ArxivGet ''graph  neural networks'' 5]\<rparr>) =
      ([], \<lparr>world = (), trace = [RateLimitWait ''arxiv'', ArxivGet ''graph  neural networks'' 5,
             RateLimitWait ''arxiv'', ArxivGet ''graph neural'' 5,
             RateLimitWait ''arxiv'', ArxivGet ''graph'' 5]\<rparr>)"
    by code_simp
  have l: "map (\<lambda>q. py_lower (py_strip q)) [''Graph  neural networks'', ''Graph neural'', ''Graph''] =
      [''graph  neural networks'', ''graph neural'', ''graph'']"
    by code_simp
  show ?thesis
    using search_papers_degradation [OF a b c] l by (simp add: w initial_state_def)
qed

section \<open>Properties of the extraction client\<close>

lemma grobid_posts_append: "grobid_posts (xs @ ys) = grobid_posts xs @ grobid_posts ys"
  by (induction xs rule: grobid_posts.induct) simp_all

lemma range_three: "[0 ..< 3] = [0, 1, 2]"
  by (simp add: upt_rec)

lemma extract_loop_posts:
  "set (grobid_posts (trace (snd (extract_loop env pdf m as s))))
     \<subseteq> insert pdf (set (grobid_posts (trace s)))"
proof (induction as arbitrary: s)
  case Nil
  show ?case by auto
next
  case (Cons a as)
  obtain out w where g: "grobid_post env pdf (world s) = (out, w)"
    by (cases "grobid_post env pdf (world s)")
  define s1 where "s1 = emit (GrobidPost pdf) (s\<lparr>world := w\<rparr>)"
  have p1: "set (grobid_posts (trace s1)) \<subseteq> insert pdf (set (grobid_posts (trace s)))"
    by (auto simp: s1_def emit_def grobid_posts_append)
  have p2: "set (grobid_posts (trace (emit (Sleep x) s1)))
      \<subseteq> insert pdf (set (grobid_posts (trace s)))" for x
    by (auto simp: s1_def emit_def grobid_posts_append)
  have r1: "set (grobid_posts (trace (snd (extract_loop env pdf m as s1))))
      \<subseteq> insert pdf (set (grobid_posts (trace s)))"
    using Cons.IH [of s1] p1 by blast
  have r2: "set (grobid_posts (trace (snd (extract_loop env pdf m as (emit (Sleep x) s1)))))
      \<subseteq> insert pdf (set (grobid_posts (trace s)))" for x
    using Cons.IH [of "emit (Sleep x) s1"] p2 [of x] by blast
  show ?case
  proof (cases out)
    case (PostRaise e)
    with g r1 r2 show ?thesis
      by (simp add: Let_def s1_def)
  next
    case (PostResponse status_code body)
    with g r1 r2 p1 show ?thesis
      by (simp add: Let_def s1_def)
  qed
qed

lemma try_urls_posts:
  "grobid_posts (trace (snd (try_urls env us s))) = grobid_posts (trace s)"
  by (induction us arbitrary: s)
     (auto simp: Let_def emit_def grobid_posts_append split: prod.splits get_outcome.splits)

lemma try_direct_download_posts:
  "grobid_posts (trace (snd (try_direct_download env u s))) = grobid_posts (trace s)"
  by (auto simp: try_direct_download_def Let_def emit_def grobid_posts_append
           split: prod.splits get_outcome.splits)

lemma try_with_user_agent_posts:
  "grobid_posts (trace (snd (try_with_user_agent env u s))) = grobid_posts (trace s)"
  by (auto simp: try_with_user_agent_def Let_def emit_def grobid_posts_append
           split: prod.splits get_outcome.splits)

lemma try_alternative_urls_posts:
  "grobid_posts (trace (snd (try_alternative_urls env u s))) = grobid_posts (trace s)"
  by (simp add: try_alternative_urls_def Let_def split_beta try_urls_posts split: option.splits)

lemma download_loop_posts:
  assumes "\<And>f s. f \<in> set fs \<Longrightarrow> grobid_posts (trace (snd (f s))) = grobid_posts (trace s)"
  shows "grobid_posts (trace (snd (download_loop fs s))) = grobid_posts (trace s)"
  using assms
proof (induction fs arbitrary: s)
  case Nil
  then show ?case by simp
next
  case (Cons f fs)
  have f: "grobid_posts (trace (snd (f s))) = grobid_posts (trace s)"
    using Cons.prems by simp
  have rest: "grobid_posts (trace (snd (download_loop fs s'))) = grobid_posts (trace s')" for s'
    using Cons.IH Cons.prems by simp
  show ?case
    using f rest [of "snd (f s)"]
    by (cases "f s") (auto split: sum.splits option.splits)
qed

lemma download_pdf_posts:
  "grobid_posts (trace (snd (download_pdf env u s))) = grobid_posts (trace s)"
  unfolding download_pdf_def
  by (rule download_loop_posts)
     (auto simp: try_direct_download_posts try_with_user_agent_posts try_alternative_urls_posts)

lemma extract_from_url_posts:
  "p \<in> set (grobid_posts (trace (snd (extract_from_url env u s)))) \<Longrightarrow>
     p \<in> set (grobid_posts (trace s)) \<or> 1000 \<le> length p"
proof -
  assume p: "p \<in> set (grobid_posts (trace (snd (extract_from_url env u s))))"
  obtain r s1 where d: "download_pdf env u s = (r, s1)" by (cases "download_pdf env u s")
  have s1: "grobid_posts (trace s1) = grobid_posts (trace s)"
    using download_pdf_posts [of env u s] d by simp
  show ?thesis
  proof (cases r)
    case None
    with p d s1 show ?thesis by (simp add: extract_from_url_def)
  next
    case (Some pdf)
    show ?thesis
    proof (cases "pdf = [] \<or> length pdf < 1000")
      case True
      with p d s1 Some show ?thesis
        by (auto simp: extract_from_url_def extract_from_bytes_def extract_with_retry_def
                 split: if_splits)
    next
      case False
      with p d Some have "p \<in> set (grobid_posts (trace (snd (extract_loop env pdf 3 [0 ..< 3] s1))))"
        by (simp add: extract_from_url_def extract_from_bytes_def extract_with_retry_def)
      with extract_loop_posts [of env pdf 3 "[0 ..< 3]" s1] s1 False show ?thesis by auto
    qed
  qed
qed

text \<open>
  C5, as stated, fails: with the extraction endpoint answering 503 to every POST, the client
  posts three times and sleeps 5 seconds and 10 seconds; there is no sleep of 20 seconds after
  the third attempt.
\<close>

theorem extract_with_retry_503_counterexample:
  "extract_with_retry busy_grobid_env pdf_payload 3 initial_state =
     (failed_extraction ''GROBID extraction failed after all retry attempts'',
      \<lparr>world = (), trace = [GrobidPost pdf_payload, Sleep 5, GrobidPost pdf_payload, Sleep 10,
                             GrobidPost pdf_payload]\<rparr>)
   \<and> Sleep 20 \<notin> set (trace (snd (extract_with_retry busy_grobid_env pdf_payload 3 initial_state)))"
proof -
  have l: "length pdf_payload = 1000" by (simp add: pdf_payload_def)
  show ?thesis
    by (simp add: extract_with_retry_def l range_three busy_grobid_env_def initial_state_def emit_def)
qed

text \<open>
  C5, amended: when the PDF-extraction endpoint responds 503 on every attempt, the client
  makes exactly 3 POST attempts, sleeping 5 seconds after the first and 10 seconds after
  the second, and does not sleep after the third, before returning a failed-extraction
  result.
\<close>

theorem extract_with_retry_503:
  assumes big: "1000 \<le> length pdf"
    and busy: "\<And>w. \<exists>body w'. grobid_post env pdf w = (PostResponse 503 body, w')"
  shows "fst (extract_with_retry env pdf 3 s) =
           failed_extraction ''GROBID extraction failed after all retry attempts''
         \<and> trace (snd (extract_with_retry env pdf 3 s)) =
             trace s @ [GrobidPost pdf, Sleep 5, GrobidPost pdf, Sleep 10, GrobidPost pdf]"
proof -
  obtain b1 w1 where p1: "grobid_post env pdf (world s) = (PostResponse 503 b1, w1)"
    using busy by blast
  obtain b2 w2 where p2: "grobid_post env pdf w1 = (PostResponse 503 b2, w2)"
    using busy by blast
  obtain b3 w3 where p3: "grobid_post env pdf w2 = (PostResponse 503 b3, w3)"
    using busy by blast
  show ?thesis
    using big by (simp add: extract_with_retry_def range_three p1 p2 p3 emit_def)
qed

theorem extract_with_retry_503_witness:
  "trace (snd (extract_with_retry busy_grobid_env pdf_payload 3 initial_state)) =
     [GrobidPost pdf_payload, Sleep 5, GrobidPost pdf_payload, Sleep 10, GrobidPost pdf_payload]"
proof -
  have big: "1000 \<le> length pdf_payload" by (simp add: pdf_payload_def)
  have busy: "\<And>w. \<exists>body w'. grobid_post busy_grobid_env pdf_payload w = (PostResponse 503 body, w')"
    by (simp add: busy_grobid_env_def)
  show ?thesis
    using extract_with_retry_503 [of pdf_payload busy_grobid_env initial_state, OF big busy]
    by (simp add: initial_state_def)
qed

text \<open>
  C6: a downloaded payload of fewer than 1000 bytes is rejected before the extraction
  endpoint is invoked. Whatever the download strategies hand over, \<^verbatim>\<open>extract_from_bytes\<close>
  on a payload shorter than 1000 bytes returns the failed extraction \<^verbatim>\<open>PDF too small\<close>
  and leaves the state as it was, so no POST is made; \<^verbatim>\<open>extract_from_url\<close> then returns a
  failed extraction with the log of POSTs unchanged; and every payload that
  \<^verbatim>\<open>extract_from_url\<close> ever posts has at least 1000 bytes.
\<close>

theorem small_pdf_rejected:
  assumes dl: "download_pdf env u s = (Some pdf, s1)"
    and small: "length pdf < 1000"
  shows "extract_from_bytes env pdf s1 =
           (failed_extraction (''PDF too small ('' @ show_nat (length pdf)
                                 @ '' bytes) - likely invalid or error page''), s1)
         \<and> snd (extract_from_url env u s) = s1
         \<and> grobid_posts (trace s1) = grobid_posts (trace s)
         \<and> \<not> extraction_success (fst (extract_from_url env u s))
         \<and> (\<forall>env' u' s'. \<forall>p \<in> set (grobid_posts (trace (snd (extract_from_url env' u' (s' :: 'a state))))).
               p \<in> set (grobid_posts (trace s')) \<or> 1000 \<le> length p)"
proof -
  have a: "extract_from_bytes env pdf s1 =
           (failed_extraction (''PDF too small ('' @ show_nat (length pdf)
                                 @ '' bytes) - likely invalid or error page''), s1)"
    using small by (simp add: extract_from_bytes_def extract_with_retry_def)
  have b: "snd (extract_from_url env u s) = s1"
    using dl a by (simp add: extract_from_url_def)
  have c: "grobid_posts (trace s1) = grobid_posts (trace s)"
    using download_pdf_posts [of env u s] dl by simp
  have d: "\<not> extraction_success (fst (extract_from_url env u s))"
    using dl a by (simp add: extract_from_url_def failed_extraction_def)
  have e: "\<forall>env' u' s'. \<forall>p \<in> set (grobid_posts (trace (snd (extract_from_url env' u' (s' :: 'a state))))).
               p \<in> set (grobid_posts (trace s')) \<or> 1000 \<le> length p"
    using extract_from_url_posts by blast
  from a b c d e show ?thesis by blast
qed

theorem small_pdf_rejected_witness:
  "download_pdf error_page_env ''https://arxiv.org/abs/2401.00001v2'' initial_state =
     (Some ''<html>busy</html>'',
      \<lparr>world = (), trace = [HttpGet ''https://arxiv.org/abs/2401.00001v2'' False,
                             HttpGet ''https://arxiv.org/abs/2401.00001v2'' True,
                             HttpGet ''https://arxiv.org/pdf/2401.00001.pdf'' False]\<rparr>)
   \<and> grobid_posts (trace (snd (extract_from_url error_page_env
         ''https://arxiv.org/abs/2401.00001v2'' initial_state))) = []
   \<and> \<not> extraction_success (fst (extract_from_url error_page_env
         ''https://arxiv.org/abs/2401.00001v2'' initial_state))"
proof -
  have dl: "download_pdf error_page_env ''https://arxiv.org/abs/2401.00001v2'' initial_state =
     (Some ''<html>busy</html>'',
      \<lparr>world = (), trace = [HttpGet ''https://arxiv.org/abs/2401.00001v2'' False,
                             HttpGet ''https://arxiv.org/abs/2401.00001v2'' True,
                             HttpGet ''https://arxiv.org/pdf/2401.00001.pdf'' False]\<rparr>)"
    by code_simp
  have small: "length ''<html>busy</html>'' < 1000" by simp
  note r = small_pdf_rejected [OF dl small]
  note state = r [THEN conjunct2, THEN conjunct1]
  note failed = r [THEN conjunct2, THEN conjunct2, THEN conjunct2, THEN conjunct1]
  have posts: "grobid_posts (trace (snd (extract_from_url error_page_env
         ''https://arxiv.org/abs/2401.00001v2'' initial_state))) = []"
    unfolding state by simp
  from dl posts failed show ?thesis by (intro conjI)
qed

section \<open>Properties of the pipeline\<close>

lemma gap_details_maps:
  "gap_details c gds = Inr ds \<Longrightarrow> map detail_key ds = map data_key gds"
proof (induction gds arbitrary: ds)
  case Nil
  then show ?case by simp
next
  case (Cons g gds)
  then show ?case
    by (auto simp: Let_def detail_key_def data_key_def split: sum.splits if_splits)
qed

lemma process_gaps_length: "length (fst (process_gaps c a gs i s)) = length gs"
  by (induction gs arbitrary: i s) (simp_all add: split_beta Let_def)

lemma valid_results_length: "length (valid_results rs) \<le> length rs"
  by (simp add: valid_results_def)


lemma prepare_response_Inr:
  assumes "prepare_response c analysis gds = Inr r"
  shows "status r = ''COMPLETED'' \<and> totalGaps r = total_gaps_identified analysis
         \<and> validGaps r = valid_gaps_count analysis
         \<and> (\<exists>ds. gaps r = Some ds \<and> map detail_key ds = map data_key gds)"
proof -
  from assms obtain ds where ds: "gap_details c gds = Inr ds"
    by (auto simp: prepare_response_def split: sum.splits)
  with assms gap_details_maps [OF ds] show ?thesis
    by (auto simp: prepare_response_def)
qed

lemma analyze_gaps_Inr:
  assumes "analyze_gaps c analysis initial_gaps s = ((Inr r, a), s')"
  shows "\<exists>gap_results s1 ds.
           process_gaps c (analysis_id analysis) initial_gaps 0 s = (gap_results, s1)
         \<and> run_summary r initial_gaps gap_results ds"
proof -
  obtain gap_results s1 where pg:
    "process_gaps c (analysis_id analysis) initial_gaps 0 s = (gap_results, s1)"
    by (cases "process_gaps c (analysis_id analysis) initial_gaps 0 s")
  obtain raised analysis1 s2 where up:
    "update_analysis_summary c analysis (int (length initial_gaps))
       (int (length (valid_results gap_results))) s1 = ((raised, analysis1), s2)"
    by (cases "update_analysis_summary c analysis (int (length initial_gaps))
       (int (length (valid_results gap_results))) s1") auto
  from assms pg up have none: "raised = None"
    and pr: "prepare_response c analysis1 (valid_results gap_results) = Inr r"
    by (auto simp: analyze_gaps_def split: option.splits)
  from up have a1: "total_gaps_identified analysis1 = int (length initial_gaps)
      \<and> valid_gaps_count analysis1 = int (length (valid_results gap_results))"
    by (auto simp: update_analysis_summary_def Let_def split_beta)
  from prepare_response_Inr [OF pr] a1 pg show ?thesis
    by (auto simp: run_summary_def)
qed

lemma analyze_paper_body_Inr:
  assumes "analyze_paper_body c request s = ((Inr r, a), s')"
  shows "\<exists>paper_data extracted_content s1 s2 (analysis :: GapAnalysis) initial_gaps gap_results s3 ds.
           llm_generate_initial_gaps c paper_data extracted_content s1 = (Inr initial_gaps, s2)
         \<and> process_gaps c (analysis_id analysis) initial_gaps 0 s2 = (gap_results, s3)
         \<and> run_summary r initial_gaps gap_results ds"
proof -
  from assms obtain s2 analysis paper_data extracted_content s3 initial_gaps s4 where
    gen: "llm_generate_initial_gaps c paper_data extracted_content s3 = (Inr initial_gaps, s4)"
    and rest: "(if initial_gaps = [] then
             (let ((raised, analysis1), s5) = mark_analysis_completed c analysis 0 0 0 0 s4
              in case raised of
                   Some e \<Rightarrow> ((Inl e, Some analysis1), s5)
                 | None \<Rightarrow> ((Inr (no_gaps_response request analysis1), Some analysis1), s5))
           else
             (let ((outcome, analysis1), s5) = analyze_gaps c analysis initial_gaps s4
              in ((outcome, Some analysis1), s5))) = ((Inr r, a), s')"
    unfolding analyze_paper_body_def
    by (auto split: prod.splits option.splits sum.splits)
  show ?thesis
  proof (cases "initial_gaps = []")
    case True
    with rest obtain an where r: "r = no_gaps_response request an"
      by (auto simp: Let_def split: prod.splits option.splits)
    have w: "llm_generate_initial_gaps c paper_data extracted_content s3 = (Inr initial_gaps, s4)
         \<and> process_gaps c (analysis_id analysis) initial_gaps 0 s4 = ([], s4)
         \<and> run_summary r initial_gaps [] []"
      using gen True r by (simp add: no_gaps_response_def valid_results_def run_summary_def)
    show ?thesis
      apply (rule exI [of _ paper_data])
      apply (rule exI [of _ extracted_content])
      apply (rule exI [of _ s3])
      apply (rule exI [of _ s4])
      apply (rule exI [of _ analysis])
      apply (rule exI [of _ initial_gaps])
      apply (rule exI [of _ "[]"])
      apply (rule exI [of _ s4])
      apply (rule exI [of _ "[]"])
      apply (rule w)
      done
  next
    case False
    with rest obtain a1 where ag: "analyze_gaps c analysis initial_gaps s4 = ((Inr r, a1), s')"
      by (auto simp: Let_def split: prod.splits)
    from analyze_gaps_Inr [OF ag] obtain gap_results s1 ds where
      "process_gaps c (analysis_id analysis) initial_gaps 0 s4 = (gap_results, s1)
         \<and> run_summary r initial_gaps gap_results ds"
      by blast
    with gen have w: "llm_generate_initial_gaps c paper_data extracted_content s3 = (Inr initial_gaps, s4)
         \<and> process_gaps c (analysis_id analysis) initial_gaps 0 s4 = (gap_results, s1)
         \<and> run_summary r initial_gaps gap_results ds"
      by simp
    show ?thesis
      apply (rule exI [of _ paper_data])
      apply (rule exI [of _ extracted_content])
      apply (rule exI [of _ s3])
      apply (rule exI [of _ s4])
      apply (rule exI [of _ analysis])
      apply (rule exI [of _ initial_gaps])
      apply (rule exI [of _ gap_results])
      apply (rule exI [of _ s1])
      apply (rule exI [of _ ds])
      apply (rule w)
      done
  qed
qed

lemma handle_failure_status: "status (fst (handle_failure c request e a s)) = ''FAILED''"
  by (simp add: handle_failure_def failed_response_def split_beta Let_def)

lemma analyze_paper_Inr:
  assumes "analyze_paper c request s = (Inr r, s')"
  shows "(\<exists>a s1. analyze_paper_body c request s = ((Inr r, a), s1))
         \<or> (\<exists>e a s1. analyze_paper_body c request s = ((Inl e, a), s1)
               \<and> r = fst (handle_failure c request e a s1))"
proof -
  obtain outcome a s1 where b: "analyze_paper_body c request s = ((outcome, a), s1)"
    by (cases "analyze_paper_body c request s") auto
  show ?thesis
  proof (cases outcome)
    case (Inl e)
    with assms b show ?thesis
      by (auto simp: analyze_paper_def split_beta split: prod.splits option.splits)
  next
    case (Inr r')
    with assms b show ?thesis
      by (auto simp: analyze_paper_def split: prod.splits option.splits)
  qed
qed

lemma analyze_paper_status:
  assumes "analyze_paper c request s = (Inr r, s')"
  shows "status r = ''COMPLETED'' \<or> status r = ''FAILED''"
proof -
  from analyze_paper_Inr [OF assms] show ?thesis
  proof (elim disjE exE conjE)
    fix a s1
    assume "analyze_paper_body c request s = ((Inr r, a), s1)"
    from analyze_paper_body_Inr [OF this] show ?thesis
      by (auto simp: run_summary_def)
  next
    fix e a s1
    assume "r = fst (handle_failure c request e a s1)"
    then show ?thesis by (simp add: handle_failure_status)
  qed
qed

lemma analyze_paper_completed:
  assumes "analyze_paper c request s = (Inr r, s')" and "status r = ''COMPLETED''"
  shows "\<exists>paper_data extracted_content s1 s2 (analysis :: GapAnalysis) initial_gaps gap_results s3 ds.
           llm_generate_initial_gaps c paper_data extracted_content s1 = (Inr initial_gaps, s2)
         \<and> process_gaps c (analysis_id analysis) initial_gaps 0 s2 = (gap_results, s3)
         \<and> run_summary r initial_gaps gap_results ds"
proof -
  from analyze_paper_Inr [OF assms(1)] show ?thesis
  proof (elim disjE exE conjE)
    fix a s1
    assume "analyze_paper_body c request s = ((Inr r, a), s1)"
    from analyze_paper_body_Inr [OF this] show ?thesis .
  next
    fix e a s1
    assume "r = fst (handle_failure c request e a s1)"
    then have "status r = ''FAILED''" by (simp add: handle_failure_status)
    with assms(2) show ?thesis by simp
  qed
qed

lemma stub_run:
  "(case analyze_paper stub the_request [] of
      (Inr r, s) \<Rightarrow> status r = ''COMPLETED'' \<and> totalGaps r = 2 \<and> validGaps r = 2
    | (Inl e, s) \<Rightarrow> False)"
  by code_simp

text \<open>
  C1: for every request whose analysis runs to conclusion (the response has status
  COMPLETED), \<open>totalGaps\<close> is the number of initial gaps that \<^verbatim>\<open>generate_initial_gaps\<close>
  returned, \<open>validGaps\<close> is the length of the response's \<open>gaps\<close> array and the number of
  gaps whose processing returned a result rather than \<^verbatim>\<open>None\<close>, and \<open>validGaps\<close> is at most
  \<open>totalGaps\<close>.
\<close>

theorem completed_response_counts:
  assumes run: "analyze_paper c request s = (Inr response, s')"
    and completed: "status response = ''COMPLETED''"
  shows "\<exists>paper_data extracted_content s1 s2 (analysis :: GapAnalysis) initial_gaps gap_results s3 ds.
           llm_generate_initial_gaps c paper_data extracted_content s1 = (Inr initial_gaps, s2)
         \<and> process_gaps c (analysis_id analysis) initial_gaps 0 s2 = (gap_results, s3)
         \<and> gaps response = Some ds
         \<and> totalGaps response = int (length initial_gaps)
         \<and> validGaps response = int (length ds)
         \<and> validGaps response = int (length (filter (\<lambda>result. result \<noteq> None) gap_results))
         \<and> validGaps response \<le> totalGaps response"
proof -
  from analyze_paper_completed [OF run completed]
  obtain paper_data extracted_content s1 s2 and analysis :: GapAnalysis
    and initial_gaps gap_results s3 ds where
    gen: "llm_generate_initial_gaps c paper_data extracted_content s1 = (Inr initial_gaps, s2)"
    and pg: "process_gaps c (analysis_id analysis) initial_gaps 0 s2 = (gap_results, s3)"
    and sm: "run_summary response initial_gaps gap_results ds"
    by blast
  from sm have g: "gaps response = Some ds"
    and t: "totalGaps response = int (length initial_gaps)"
    and v: "validGaps response = int (length (valid_results gap_results))"
    and k: "map detail_key ds = map data_key (valid_results gap_results)"
    by (simp_all add: run_summary_def)
  from k have l: "length ds = length (valid_results gap_results)"
    by (rule map_eq_imp_length_eq)
  have f: "length (valid_results gap_results)
      = length (filter (\<lambda>result. result \<noteq> None) gap_results)"
    by (simp add: valid_results_def)
  have n: "length gap_results = length initial_gaps"
    using process_gaps_length [of c "analysis_id analysis" initial_gaps 0 s2] pg by simp
  have le: "validGaps response \<le> totalGaps response"
    using v t n valid_results_length [of gap_results] by simp
  have w: "llm_generate_initial_gaps c paper_data extracted_content s1 = (Inr initial_gaps, s2)
         \<and> process_gaps c (analysis_id analysis) initial_gaps 0 s2 = (gap_results, s3)
         \<and> gaps response = Some ds
         \<and> totalGaps response = int (length initial_gaps)
         \<and> validGaps response = int (length ds)
         \<and> validGaps response = int (length (filter (\<lambda>result. result \<noteq> None) gap_results))
         \<and> validGaps response \<le> totalGaps response"
    using gen pg g t v l f le by simp
  show ?thesis
    apply (rule exI [of _ paper_data])
    apply (rule exI [of _ extracted_content])
    apply (rule exI [of _ s1])
    apply (rule exI [of _ s2])
    apply (rule exI [of _ analysis])
    apply (rule exI [of _ initial_gaps])
    apply (rule exI [of _ gap_results])
    apply (rule exI [of _ s3])
    apply (rule exI [of _ ds])
    apply (rule w)
    done
qed

theorem completed_response_counts_witness:
  "\<exists>response s'. analyze_paper stub the_request [] = (Inr response, s')
     \<and> status response = ''COMPLETED''
     \<and> totalGaps response = 2
     \<and> validGaps response = int (length (the (gaps response)))
     \<and> validGaps response \<le> totalGaps response"
proof -
  from stub_run obtain response s' where
    run: "analyze_paper stub the_request [] = (Inr response, s')"
    and completed: "status response = ''COMPLETED''"
    and total: "totalGaps response = 2"
    by (auto split: prod.splits sum.splits)
  from completed_response_counts [OF run completed]
  have "validGaps response = int (length (the (gaps response)))
     \<and> validGaps response \<le> totalGaps response"
    by auto
  with run completed total show ?thesis by blast
qed

subsection \<open>Validation under errors\<close>

lemma retry_async_first:
  "func s = (Inr v, s') \<Longrightarrow> retry_async 3 d func s = (Inr v, s')"
  by (simp add: retry_async_def range_three)

lemma validate_gap_body_Inr:
  "\<exists>v s'. validate_gap_body env gap related_papers s = (Inr v, s')
     \<and> (\<forall>e w. model_validate env gap related_papers (world s) = (Inl e, w)
           \<longrightarrow> is_valid v \<and> confidence v = 0.3)"
proof (cases "model_validate env gap related_papers (world s)")
  case (Pair out w)
  show ?thesis
  proof (cases out)
    case (Inr validation)
    with Pair show ?thesis
      by (simp add: validate_gap_body_def emit_def Let_def)
  next
    case (Inl error_str)
    with Pair show ?thesis
      by (cases "is_rate_limit_error error_str")
         (simp_all add: validate_gap_body_def emit_def Let_def rate_limited_validation_def
            error_validation_def)
  qed
qed

lemma validate_gap_Inr:
  "\<exists>v s'. validate_gap env gap related_papers s = (Inr v, s')
     \<and> (\<forall>e w. model_validate env gap related_papers (world s) = (Inl e, w)
           \<longrightarrow> is_valid v \<and> confidence v = 0.3)"
proof -
  from validate_gap_body_Inr [of env gap related_papers s]
  obtain v s' where b: "validate_gap_body env gap related_papers s = (Inr v, s')"
    and p: "\<forall>e w. model_validate env gap related_papers (world s) = (Inl e, w)
           \<longrightarrow> is_valid v \<and> confidence v = 0.3"
    by blast
  from b retry_async_first [of "validate_gap_body env gap related_papers" s v s' 2]
  have "validate_gap env gap related_papers s = (Inr v, s')"
    by (simp add: validate_gap_def)
  with p show ?thesis by blast
qed

lemma service_validation_invalid:
  assumes n: "\<not> is_valid (fst (validate_gap_in_service c g t))"
  shows "\<exists>ecs t3 v t4. llm_validate_gap c g ecs t3 = (Inr v, t4) \<and> \<not> is_valid v"
proof -
  obtain o1 t1 where q: "llm_generate_search_query c g t = (o1, t1)"
    by (cases "llm_generate_search_query c g t")
  show ?thesis
  proof (cases o1)
    case (Inl e)
    with q n show ?thesis by (simp add: validate_gap_in_service_def assumed_valid_def)
  next
    case o1: (Inr search_query)
    obtain o2 t2 where p: "search_papers_op c search_query (gap_validation_papers c) t1 = (o2, t2)"
      by (cases "search_papers_op c search_query (gap_validation_papers c) t1")
    show ?thesis
    proof (cases o2)
      case (Inl e)
      with q o1 p n show ?thesis by (simp add: validate_gap_in_service_def assumed_valid_def)
    next
      case o2: (Inr related_papers)
      show ?thesis
      proof (cases "related_papers = []")
        case True
        with q o1 p o2 n show ?thesis
          by (simp add: validate_gap_in_service_def no_papers_validation_def)
      next
        case False
        obtain o3 t3 where x: "extract_batch_op c related_papers t2 = (o3, t3)"
          by (cases "extract_batch_op c related_papers t2")
        show ?thesis
        proof (cases o3)
          case (Inl e)
          with q o1 p o2 False x n show ?thesis
            by (simp add: validate_gap_in_service_def assumed_valid_def)
        next
          case o3: (Inr extracted_contents)
          obtain o4 t4 where v: "llm_validate_gap c g extracted_contents t3 = (o4, t4)"
            by (cases "llm_validate_gap c g extracted_contents t3")
          show ?thesis
          proof (cases o4)
            case (Inl e)
            with q o1 p o2 False x o3 v n show ?thesis
              by (simp add: validate_gap_in_service_def assumed_valid_def)
          next
            case (Inr validation_result)
            with q o1 p o2 False x o3 v n have "\<not> is_valid validation_result"
              by (simp add: validate_gap_in_service_def)
            with v Inr show ?thesis by blast
          qed
        qed
      qed
    qed
  qed
qed

text \<open>
  C2: no error path of validation produces \<open>is_valid = false\<close>. \<^verbatim>\<open>validate_gap\<close> of the
  language-model client never raises, and when the model call or the reading of its reply
  raises (a rate-limit error included) it returns a result with \<open>is_valid = true\<close> and
  \<open>confidence = 0.3\<close>. \<^verbatim>\<open>_validate_gap\<close> of the pipeline returns the result
  \<open>assumed_valid\<close>, which has \<open>is_valid = true\<close> and \<open>confidence = 0.3\<close>, whenever the query
  generation, the search, the extraction or the validator raises; it reports a gap as
  invalid only when the validator itself returned that verdict.
\<close>

theorem validation_errors_assume_valid:
  "(\<exists>v s'. validate_gap env gap related_papers s = (Inr v, s')
       \<and> (\<forall>e w. model_validate env gap related_papers (world s) = (Inl e, w)
             \<longrightarrow> is_valid v \<and> confidence v = 0.3))
   \<and> (\<forall>e t1. llm_generate_search_query c g t = (Inl e, t1)
         \<longrightarrow> validate_gap_in_service c g t = (assumed_valid, t1))
   \<and> (\<forall>q t1 e t2. llm_generate_search_query c g t = (Inr q, t1)
           \<and> search_papers_op c q (gap_validation_papers c) t1 = (Inl e, t2)
         \<longrightarrow> validate_gap_in_service c g t = (assumed_valid, t2))
   \<and> (\<forall>q t1 ps t2 e t3. llm_generate_search_query c g t = (Inr q, t1)
           \<and> search_papers_op c q (gap_validation_papers c) t1 = (Inr ps, t2) \<and> ps \<noteq> []
           \<and> extract_batch_op c ps t2 = (Inl e, t3)
         \<longrightarrow> validate_gap_in_service c g t = (assumed_valid, t3))
   \<and> (\<forall>q t1 ps t2 ecs t3 e t4. llm_generate_search_query c g t = (Inr q, t1)
           \<and> search_papers_op c q (gap_validation_papers c) t1 = (Inr ps, t2) \<and> ps \<noteq> []
           \<and> extract_batch_op c ps t2 = (Inr ecs, t3)
           \<and> llm_validate_gap c g ecs t3 = (Inl e, t4)
         \<longrightarrow> validate_gap_in_service c g t = (assumed_valid, t4))
   \<and> is_valid assumed_valid \<and> confidence assumed_valid = 0.3
   \<and> (\<not> is_valid (fst (validate_gap_in_service c g t))
         \<longrightarrow> (\<exists>ecs t3 v t4. llm_validate_gap c g ecs t3 = (Inr v, t4) \<and> \<not> is_valid v))"
proof (intro conjI)
  show "\<exists>v s'. validate_gap env gap related_papers s = (Inr v, s')
       \<and> (\<forall>e w. model_validate env gap related_papers (world s) = (Inl e, w)
             \<longrightarrow> is_valid v \<and> confidence v = 0.3)"
    by (rule validate_gap_Inr)
  show "\<forall>e t1. llm_generate_search_query c g t = (Inl e, t1)
         \<longrightarrow> validate_gap_in_service c g t = (assumed_valid, t1)"
    by (simp add: validate_gap_in_service_def)
  show "\<forall>q t1 e t2. llm_generate_search_query c g t = (Inr q, t1)
           \<and> search_papers_op c q (gap_validation_papers c) t1 = (Inl e, t2)
         \<longrightarrow> validate_gap_in_service c g t = (assumed_valid, t2)"
    by (simp add: validate_gap_in_service_def)
  show "\<forall>q t1 ps t2 e t3. llm_generate_search_query c g t = (Inr q, t1)
           \<and> search_papers_op c q (gap_validation_papers c) t1 = (Inr ps, t2) \<and> ps \<noteq> []
           \<and> extract_batch_op c ps t2 = (Inl e, t3)
         \<longrightarrow> validate_gap_in_service c g t = (assumed_valid, t3)"
    by (simp add: validate_gap_in_service_def)
  show "\<forall>q t1 ps t2 ecs t3 e t4. llm_generate_search_query c g t = (Inr q, t1)
           \<and> search_papers_op c q (gap_validation_papers c) t1 = (Inr ps, t2) \<and> ps \<noteq> []
           \<and> extract_batch_op c ps t2 = (Inr ecs, t3)
           \<and> llm_validate_gap c g ecs t3 = (Inl e, t4)
         \<longrightarrow> validate_gap_in_service c g t = (assumed_valid, t4)"
    by (simp add: validate_gap_in_service_def)
  show "is_valid assumed_valid" by (simp add: assumed_valid_def)
  show "confidence assumed_valid = 0.3" by (simp add: assumed_valid_def)
  show "\<not> is_valid (fst (validate_gap_in_service c g t))
         \<longrightarrow> (\<exists>ecs t3 v t4. llm_validate_gap c g ecs t3 = (Inr v, t4) \<and> \<not> is_valid v)"
    by (rule impI, rule service_validation_invalid)
qed

theorem validation_errors_assume_valid_witness:
  "model_validate quota_env gap_one [] (world initial_state) = (Inl ''429 Resource exhausted'', ())
   \<and> (\<exists>v s'. validate_gap quota_env gap_one [] initial_state = (Inr v, s')
         \<and> is_valid v \<and> confidence v = 0.3)
   \<and> llm_generate_search_query stub gap_two [] = (Inr ''Scalability of the decoder'', [''query''])
   \<and> search_papers_op stub ''Scalability of the decoder'' (gap_validation_papers stub) [''query'']
       = (Inl ''timed out'', [''query'', ''search''])
   \<and> validate_gap_in_service stub gap_two [] = (assumed_valid, [''query'', ''search''])"
proof -
  note t = validation_errors_assume_valid
    [of quota_env gap_one "[]" initial_state stub gap_two "[]"]
  have m: "model_validate quota_env gap_one [] (world initial_state)
      = (Inl ''429 Resource exhausted'', ())"
    by (simp add: quota_env_def)
  from t [THEN conjunct1] m
  have a: "\<exists>v s'. validate_gap quota_env gap_one [] initial_state = (Inr v, s')
         \<and> is_valid v \<and> confidence v = 0.3"
    by blast
  have q: "llm_generate_search_query stub gap_two [] = (Inr ''Scalability of the decoder'', [''query''])"
    by (simp add: stub_def gap_two_def)
  have p: "search_papers_op stub ''Scalability of the decoder'' (gap_validation_papers stub) [''query'']
       = (Inl ''timed out'', [''query'', ''search''])"
    by (simp add: stub_def)
  from t [THEN conjunct2, THEN conjunct2, THEN conjunct1] q p
  have b: "validate_gap_in_service stub gap_two [] = (assumed_valid, [''query'', ''search''])"
    by blast
  from m a q p b show ?thesis by (intro conjI)
qed

subsection \<open>Gaps without related literature\<close>








section \<open>Properties of the language-model client\<close>














end
